theory Spec2Isabelle
  imports Main "HOL-Library.Multiset"
begin

section \<open>Errors and outcomes\<close>

text \<open>
  A Go \<open>error\<close> is modelled by its message (what \<open>err.Error()\<close> returns).
  \<open>errors.Wrap(err, msg)\<close> of github.com/pkg/errors yields an error whose message is
  \<open>msg + ": " + err.Error()\<close>.
\<close>

type_synonym error = string

definition Wrap :: "error \<Rightarrow> string \<Rightarrow> error" where
  "Wrap err msg = msg @ '': '' @ err"

text \<open>
  What a call of one of the migration functions ends in: a \<open>nil\<close> error, a non-nil
  error, or a run-time panic (a failed type assertion) carrying the panic text.
\<close>

datatype outcome = Success | Failure error | Panic string

section \<open>The insert statement builder\<close>

text \<open>
  The values bound to a statement. \<open>Scan\<close> renders a boolean or timestamp column as text
  and the destination parses that text back on insert; the model carries the column value
  itself (\<open>SBool\<close>, \<open>STime\<close>) instead of its rendering. \<open>SBytes\<close> is a \<open>[]byte\<close>
  argument.
\<close>

datatype sqlval = SString string | SBytes string | SBool bool | STime int

text \<open>
  The part of squirrel's \<open>InsertBuilder\<close> that the program uses: \<open>Insert\<close>, \<open>Columns\<close>,
  \<open>Values\<close> and \<open>ToSql\<close>. The builder is immutable; \<open>Columns\<close> and \<open>Values\<close> return an
  extended copy. \<open>ToSql\<close> refuses a statement without a table and a statement without any
  row of values (squirrel: "insert statements must have at least one set of values or
  select clause"); the generated text and its argument list are represented by the
  builder's data.
\<close>

record insertData =
  Into :: string
  Columns :: "string list"
  Values :: "sqlval list list"

definition sq_Insert :: "string \<Rightarrow> insertData" where
  "sq_Insert table = \<lparr>Into = table, Columns = [], Values = []\<rparr>"

definition sq_Columns :: "insertData \<Rightarrow> string list \<Rightarrow> insertData" where
  "sq_Columns b cols = b\<lparr>Columns := Columns b @ cols\<rparr>"

definition sq_Values :: "insertData \<Rightarrow> sqlval list \<Rightarrow> insertData" where
  "sq_Values b vals = b\<lparr>Values := Values b @ [vals]\<rparr>"

definition sq_ToSql :: "insertData \<Rightarrow> error + insertData" where
  "sq_ToSql b =
     (if Into b = [] then Inl ''insert statements must specify a table''
      else if Values b = [] then
        Inl ''insert statements must have at least one set of values or select clause''
      else Inr b)"

section \<open>The source database\<close>

record src_user =
  u_id :: string
  u_username :: string

record src_notification =
  n_uuid :: string
  n_type :: string
  n_user_id :: string
  n_subject :: string
  n_seen :: bool
  n_deleted :: bool
  n_date_created :: int
  n_message :: string

text \<open>
  The source transaction: the two tables, and what the driver reports. \<open>src_query_err q\<close>
  is the error of \<open>Query(q)\<close>, if any; \<open>src_scan_err q i\<close> is the error of \<open>Scan\<close> on
  row \<open>i\<close> of the result of \<open>q\<close>, if any (a NULL column, for instance).
\<close>

record source_tx =
  src_users :: "src_user list"
  src_notifications :: "src_notification list"
  src_query_err :: "string \<Rightarrow> error option"
  src_scan_err :: "string \<Rightarrow> nat \<Rightarrow> error option"

text \<open>
  A result set as the loop \<open>for rows.Next() { rows.Scan(...) }\<close> sees it: every row
  either fails to scan or delivers its values. The loops do not consult \<open>rows.Err()\<close>
  when \<open>Next\<close> returns false, so an error while fetching ends a loop like the end of
  the result set does; the model has complete result sets only.
\<close>

definition scanned :: "(nat \<Rightarrow> error option) \<Rightarrow> 'a list \<Rightarrow> (error + 'a) list" where
  "scanned se rows =
     map (\<lambda>(i, r). case se i of Some e \<Rightarrow> Inl e | None \<Rightarrow> Inr r) (enumerate 0 rows)"

text \<open>SQL \<open>lower\<close>, on the ASCII letters.\<close>

definition lower_char :: "char \<Rightarrow> char" where
  "lower_char c =
     (case map_of (zip ''ABCDEFGHIJKLMNOPQRSTUVWXYZ'' ''abcdefghijklmnopqrstuvwxyz'') c of
        None \<Rightarrow> c
      | Some l \<Rightarrow> l)"

definition lower :: "string \<Rightarrow> string" where
  "lower s = map lower_char s"

definition users_query :: string where
  "users_query = ''SELECT username FROM users''"

definition types_query :: string where
  "types_query = ''SELECT DISTINCT lower(type) FROM notifications''"

definition sourceQuery :: string where
  "sourceQuery = ''SELECT n.uuid, lower(n.type), u.username, n.subject, n.seen, n.deleted, n.date_created, n.message FROM notifications n JOIN users u ON n.user_id = u.id ORDER BY n.date_created''"

text \<open>One row of \<open>sourceQuery\<close>, named after the variables it is scanned into.\<close>

record notification_row =
  r_id :: string
  r_notificationType :: string
  r_username :: string
  r_subject :: string
  r_seen :: bool
  r_deleted :: bool
  r_timeCreated :: int
  r_message :: string

definition join_row :: "src_notification \<Rightarrow> src_user \<Rightarrow> notification_row" where
  "join_row n u =
     \<lparr>r_id = n_uuid n, r_notificationType = lower (n_type n), r_username = u_username u,
      r_subject = n_subject n, r_seen = n_seen n, r_deleted = n_deleted n,
      r_timeCreated = n_date_created n, r_message = n_message n\<rparr>"

text \<open>The three result sets, before scanning.\<close>

definition select_usernames :: "source_tx \<Rightarrow> string list" where
  "select_usernames s = map u_username (src_users s)"

definition select_distinct_types :: "source_tx \<Rightarrow> string list" where
  "select_distinct_types s = remdups (map (\<lambda>n. lower (n_type n)) (src_notifications s))"

definition select_notifications :: "source_tx \<Rightarrow> notification_row list" where
  "select_notifications s =
     sort_key r_timeCreated
       (concat (map (\<lambda>n. map (join_row n) (filter (\<lambda>u. n_user_id n = u_id u) (src_users s)))
                    (src_notifications s)))"

definition src_Query :: "source_tx \<Rightarrow> string \<Rightarrow> 'a list \<Rightarrow> error + (error + 'a) list" where
  "src_Query s q rows =
     (case src_query_err s q of
        Some e \<Rightarrow> Inl e
      | None \<Rightarrow> Inr (scanned (src_scan_err s q) rows))"

section \<open>The destination database\<close>

record dst_user =
  du_id :: string
  du_username :: string

record dst_notification_type =
  nt_id :: string
  nt_name :: string

record dst_notification =
  dn_id :: string
  dn_notification_type_id :: string
  dn_user_id :: string
  dn_subject :: string
  dn_seen :: bool
  dn_deleted :: bool
  dn_time_created :: int
  dn_incoming_json :: string
  dn_outgoing_json :: string

text \<open>
  The destination transaction. The database assigns the identity of a new user or
  notification type: \<open>gen_id d k\<close> is the \<open>k\<close>-th identity it hands out and \<open>id_seq\<close> counts
  those handed out so far. \<open>dst_query_err\<close> and \<open>dst_scan_err\<close> are as for the source;
  \<open>dst_exec_err d k st\<close> is the error, if any, with which the database rejects \<open>st\<close> when
  it is the \<open>k\<close>-th statement executed (a violated constraint, for instance). \<open>executed\<close>
  is the list of statements passed to \<open>Exec\<close> so far.
\<close>

record dest_tx =
  users :: "dst_user list"
  notification_types :: "dst_notification_type list"
  notifications :: "dst_notification list"
  id_seq :: nat
  gen_id :: "nat \<Rightarrow> string"
  dst_query_err :: "string \<Rightarrow> error option"
  dst_scan_err :: "string \<Rightarrow> nat \<Rightarrow> error option"
  dst_exec_err :: "nat \<Rightarrow> insertData \<Rightarrow> error option"
  executed :: "insertData list"

definition count_users_query :: string where
  "count_users_query = ''SELECT count(*) FROM users''"

definition count_types_query :: string where
  "count_types_query = ''SELECT count(*) FROM notification_types''"

definition count_notifications_query :: string where
  "count_notifications_query = ''SELECT count(*) FROM notifications''"

definition type_ids_query :: string where
  "type_ids_query = ''SELECT id, name FROM notification_types''"

definition user_ids_query :: string where
  "user_ids_query = ''SELECT id, username FROM users''"

text \<open>\<open>QueryRow(q).Scan(&count)\<close> for a \<open>count(*)\<close> over a table of \<open>n\<close> rows.\<close>

definition dst_QueryRow_count :: "dest_tx \<Rightarrow> string \<Rightarrow> nat \<Rightarrow> error + int" where
  "dst_QueryRow_count d q n =
     (case dst_query_err d q of Some e \<Rightarrow> Inl e | None \<Rightarrow> Inr (int n))"

definition dst_Query :: "dest_tx \<Rightarrow> string \<Rightarrow> 'a list \<Rightarrow> error + (error + 'a) list" where
  "dst_Query d q rows =
     (case dst_query_err d q of
        Some e \<Rightarrow> Inl e
      | None \<Rightarrow> Inr (scanned (dst_scan_err d q) rows))"

text \<open>Reading the rows of a statement for each of the three tables.\<close>

fun username_values :: "sqlval list list \<Rightarrow> string list option" where
  "username_values [] = Some []"
| "username_values ([SString u] # vs) = map_option ((#) u) (username_values vs)"
| "username_values (_ # vs) = None"

definition notification_of_values :: "sqlval list \<Rightarrow> dst_notification option" where
  "notification_of_values vs =
     (case vs of
        [SString i, SString t, SString u, SString s, SBool se, SBool de, STime tc,
         SString inc, SBytes out] \<Rightarrow>
          Some \<lparr>dn_id = i, dn_notification_type_id = t, dn_user_id = u, dn_subject = s,
                dn_seen = se, dn_deleted = de, dn_time_created = tc, dn_incoming_json = inc,
                dn_outgoing_json = out\<rparr>
      | _ \<Rightarrow> None)"

fun notification_values :: "sqlval list list \<Rightarrow> dst_notification list option" where
  "notification_values [] = Some []"
| "notification_values (v # vs) =
     (case notification_of_values v of
        None \<Rightarrow> None
      | Some n \<Rightarrow> map_option ((#) n) (notification_values vs))"

fun insert_users :: "dest_tx \<Rightarrow> string list \<Rightarrow> dest_tx" where
  "insert_users d [] = d"
| "insert_users d (u # us) =
     insert_users
       (d\<lparr>users := users d @ [\<lparr>du_id = gen_id d (id_seq d), du_username = u\<rparr>],
          id_seq := Suc (id_seq d)\<rparr>) us"

fun insert_types :: "dest_tx \<Rightarrow> string list \<Rightarrow> dest_tx" where
  "insert_types d [] = d"
| "insert_types d (t # ts) =
     insert_types
       (d\<lparr>notification_types :=
            notification_types d @ [\<lparr>nt_id = gen_id d (id_seq d), nt_name = t\<rparr>],
          id_seq := Suc (id_seq d)\<rparr>) ts"

definition notification_columns :: "string list" where
  "notification_columns =
     [''id'', ''notification_type_id'', ''user_id'', ''subject'', ''seen'', ''deleted'',
      ''time_created'', ''incoming_json'', ''outgoing_json'']"

text \<open>
  The effect of an accepted insert statement on the tables. A statement the database
  cannot bind to one of the three tables is rejected.
\<close>

definition apply_insert :: "dest_tx \<Rightarrow> insertData \<Rightarrow> error + dest_tx" where
  "apply_insert d st =
     (if Into st = ''users'' \<and> Columns st = [''username''] then
        (case username_values (Values st) of
           None \<Rightarrow> Inl ''bind message supplies the wrong parameters''
         | Some us \<Rightarrow> Inr (insert_users d us))
      else if Into st = ''notification_types'' \<and> Columns st = [''name''] then
        (case username_values (Values st) of
           None \<Rightarrow> Inl ''bind message supplies the wrong parameters''
         | Some ts \<Rightarrow> Inr (insert_types d ts))
      else if Into st = ''notifications'' \<and> Columns st = notification_columns then
        (case notification_values (Values st) of
           None \<Rightarrow> Inl ''bind message supplies the wrong parameters''
         | Some ns \<Rightarrow> Inr (d\<lparr>notifications := notifications d @ ns\<rparr>))
      else Inl ''relation or column does not exist'')"

text \<open>
  \<open>destTx.Exec(statement, args...)\<close>: the statement is recorded as issued, then either
  rejected, leaving the tables as they were, or applied.
\<close>

definition Exec :: "dest_tx \<Rightarrow> insertData \<Rightarrow> error option \<times> dest_tx" where
  "Exec d st =
     (let d' = d\<lparr>executed := executed d @ [st]\<rparr> in
      case dst_exec_err d (length (executed d)) st of
        Some e \<Rightarrow> (Some e, d')
      | None \<Rightarrow>
          (case apply_insert d' st of
             Inl e \<Rightarrow> (Some e, d')
           | Inr d'' \<Rightarrow> (None, d'')))"

section \<open>JSON values\<close>

text \<open>
  What \<open>encoding/json\<close> decodes into an \<open>interface{}\<close>: \<open>nil\<close>, \<open>bool\<close>, \<open>float64\<close>,
  \<open>string\<close>, \<open>[]interface{}\<close> or \<open>map[string]interface{}\<close>. A Go map is an
  association list read with \<open>map_of\<close> and written with \<open>map_set\<close>. The \<open>float64\<close>
  values are not modelled further.
\<close>

typedecl float64

datatype json =
  JNull
| JBool bool
| JNumber float64
| JString string
| JArray "json list"
| JObject "(string \<times> json) list"

type_synonym gomap = "(string \<times> json) list"

text \<open>\<open>m[k] = v\<close>: replaces the value of an existing key, adds the key otherwise.\<close>

fun map_set :: "gomap \<Rightarrow> string \<Rightarrow> json \<Rightarrow> gomap" where
  "map_set [] k v = [(k, v)]"
| "map_set ((k', v') # m) k v = (if k' = k then (k, v) # m else (k', v') # map_set m k v)"

text \<open>
  \<open>m[k]\<close> on a \<open>map[string]interface{}\<close>, which may be the \<open>nil\<close> map (\<open>None\<close>): a
  missing key reads as the \<open>nil\<close> interface value.
\<close>

definition map_get :: "gomap option \<Rightarrow> string \<Rightarrow> json" where
  "map_get m k =
     (case m of
        None \<Rightarrow> JNull
      | Some kvs \<Rightarrow> (case map_of kvs k of None \<Rightarrow> JNull | Some v \<Rightarrow> v))"

text \<open>\<open>m[k]\<close> on a \<open>map[string]string\<close>: a missing key reads as the empty string.\<close>

definition string_map_get :: "(string \<rightharpoonup> string) \<Rightarrow> string \<Rightarrow> string" where
  "string_map_get m k = (case m k of None \<Rightarrow> [] | Some v \<Rightarrow> v)"

fun go_type_name :: "json \<Rightarrow> string" where
  "go_type_name JNull = ''nil''"
| "go_type_name (JBool b) = ''bool''"
| "go_type_name (JNumber x) = ''float64''"
| "go_type_name (JString s) = ''string''"
| "go_type_name (JArray xs) = ''[]interface {}''"
| "go_type_name (JObject m) = ''map[string]interface {}''"

text \<open>
  The statement \<open>outgoing["message"].(map[string]interface{})["id"] = id\<close>. The type
  assertion has no \<open>ok\<close> result, so it panics on anything but a map. The inner map is
  updated in place, which the outer map sees.
\<close>

definition conversion_panic :: "json \<Rightarrow> string" where
  "conversion_panic v =
     ''interface conversion: interface {} is '' @ go_type_name v
     @ '', not map[string]interface {}''"

definition set_message_id :: "gomap option \<Rightarrow> string \<Rightarrow> string + gomap" where
  "set_message_id outgoing ident =
     (case map_get outgoing ''message'' of
        JObject message \<Rightarrow>
          (case outgoing of
             None \<Rightarrow> Inl (conversion_panic JNull)
           | Some m \<Rightarrow>
               Inr (map_set m ''message'' (JObject (map_set message ''id'' (JString ident)))))
      | v \<Rightarrow> Inl (conversion_panic v))"

text \<open>
  The two functions of \<open>encoding/json\<close> that the program calls, taken as they are:
  \<open>Unmarshal\<close> into a \<open>map[string]interface{}\<close> variable that starts as the \<open>nil\<close> map
  (it returns an error, or the map, which is still \<open>nil\<close> after decoding \<open>null\<close>), and
  \<open>Marshal\<close> of such a map.
\<close>

record encoding_json =
  Unmarshal :: "string \<Rightarrow> error + gomap option"
  Marshal :: "gomap \<Rightarrow> error + string"

section \<open>The migration\<close>

text \<open>
  A function returning a Go \<open>error\<close> returns an \<open>error option\<close> (\<open>None\<close> is \<open>nil\<close>),
  paired with the destination transaction as the call leaves it when the call writes to
  it. The progress lines printed by \<open>runMigration\<close> are not modelled.
\<close>

definition validateDestinationUsersTable :: "dest_tx \<Rightarrow> error option" where
  "validateDestinationUsersTable destTx =
     (let wrapMsg = ''unable to verify that the destination users table is empty'' in
      case dst_QueryRow_count destTx count_users_query (length (users destTx)) of
        Inl err \<Rightarrow> Some (Wrap err wrapMsg)
      | Inr userCount \<Rightarrow>
          if userCount > 0 then Some ''the destination users table is not empty''
          else None)"

text \<open>
  The loop \<open>for sourceRows.Next()\<close> of \<open>migrateUsers\<close> and of \<open>migrateNotificationTypes\<close>:
  a failed \<open>Scan\<close> returns its error, every other row adds one set of values.
\<close>

fun add_values :: "insertData \<Rightarrow> (error + string) list \<Rightarrow> error + insertData" where
  "add_values builder [] = Inr builder"
| "add_values builder (Inl err # sourceRows) = Inl err"
| "add_values builder (Inr v # sourceRows) =
     add_values (sq_Values builder [SString v]) sourceRows"

definition migrateUsers :: "source_tx \<Rightarrow> dest_tx \<Rightarrow> error option \<times> dest_tx" where
  "migrateUsers sourceTx destTx =
     (let wrapMsg = ''user migration failed'' in
      case validateDestinationUsersTable destTx of
        Some err \<Rightarrow> (Some (Wrap err wrapMsg), destTx)
      | None \<Rightarrow>
     (case src_Query sourceTx users_query (select_usernames sourceTx) of
        Inl err \<Rightarrow> (Some (Wrap err wrapMsg), destTx)
      | Inr sourceRows \<Rightarrow>
     (case add_values (sq_Columns (sq_Insert ''users'') [''username'']) sourceRows of
        Inl err \<Rightarrow> (Some (Wrap err wrapMsg), destTx)
      | Inr builder \<Rightarrow>
     (case sq_ToSql builder of
        Inl err \<Rightarrow> (Some (Wrap err wrapMsg), destTx)
      | Inr statement \<Rightarrow>
     (case Exec destTx statement of
        (Some err, destTx') \<Rightarrow> (Some (Wrap err wrapMsg), destTx')
      | (None, destTx') \<Rightarrow> (None, destTx'))))))"

definition validateDestinationNotificationTypesTable :: "dest_tx \<Rightarrow> error option" where
  "validateDestinationNotificationTypesTable destTx =
     (let wrapMsg = ''unable to validate the destination notification_types table'' in
      case dst_QueryRow_count destTx count_types_query (length (notification_types destTx)) of
        Inl err \<Rightarrow> Some (Wrap err wrapMsg)
      | Inr notificationTypeCount \<Rightarrow>
          if notificationTypeCount > 0
          then Some ''the destination notification_types table is not empty''
          else None)"

definition migrateNotificationTypes :: "source_tx \<Rightarrow> dest_tx \<Rightarrow> error option \<times> dest_tx" where
  "migrateNotificationTypes sourceTx destTx =
     (let wrapMsg = ''notification type migration failed'' in
      case validateDestinationNotificationTypesTable destTx of
        Some err \<Rightarrow> (Some (Wrap err wrapMsg), destTx)
      | None \<Rightarrow>
     (case src_Query sourceTx types_query (select_distinct_types sourceTx) of
        Inl err \<Rightarrow> (Some (Wrap err wrapMsg), destTx)
      | Inr sourceRows \<Rightarrow>
     (case add_values (sq_Columns (sq_Insert ''notification_types'') [''name'']) sourceRows of
        Inl err \<Rightarrow> (Some (Wrap err wrapMsg), destTx)
      | Inr builder \<Rightarrow>
     (case sq_ToSql builder of
        Inl err \<Rightarrow> (Some (Wrap err wrapMsg), destTx)
      | Inr statement \<Rightarrow>
     (case Exec destTx statement of
        (Some err, destTx') \<Rightarrow> (Some (Wrap err wrapMsg), destTx')
      | (None, destTx') \<Rightarrow> (None, destTx'))))))"

definition validateDestinationNotificationsTable :: "dest_tx \<Rightarrow> error option" where
  "validateDestinationNotificationsTable destTx =
     (let wrapMsg = ''unable to validate the destination notifications table'' in
      case dst_QueryRow_count destTx count_notifications_query
             (length (notifications destTx)) of
        Inl err \<Rightarrow> Some (Wrap err wrapMsg)
      | Inr notificationCount \<Rightarrow>
          if notificationCount > 0
          then Some ''the destination notifictions table is not empty''
          else None)"

text \<open>
  The loop of the two map builders: \<open>result[name] = id\<close> for every row, a later row
  with the same name replacing an earlier one.
\<close>

fun build_map ::
  "(string \<rightharpoonup> string) \<Rightarrow> (error + string \<times> string) list \<Rightarrow> error + (string \<rightharpoonup> string)"
where
  "build_map result [] = Inr result"
| "build_map result (Inl err # rows) = Inl err"
| "build_map result (Inr (ident, name) # rows) = build_map (result(name \<mapsto> ident)) rows"

definition getNotificationTypeIDMap :: "dest_tx \<Rightarrow> error + (string \<rightharpoonup> string)" where
  "getNotificationTypeIDMap destTx =
     (let wrapMsg = ''unable to load the notification type ID map'' in
      case dst_Query destTx type_ids_query
             (map (\<lambda>t. (nt_id t, nt_name t)) (notification_types destTx)) of
        Inl err \<Rightarrow> Inl (Wrap err wrapMsg)
      | Inr rows \<Rightarrow>
          (case build_map Map.empty rows of
             Inl err \<Rightarrow> Inl (Wrap err wrapMsg)
           | Inr result \<Rightarrow> Inr result))"

definition getUserIDMap :: "dest_tx \<Rightarrow> error + (string \<rightharpoonup> string)" where
  "getUserIDMap destTx =
     (let wrapMsg = ''unable to laod the user ID map'' in
      case dst_Query destTx user_ids_query
             (map (\<lambda>u. (du_id u, du_username u)) (users destTx)) of
        Inl err \<Rightarrow> Inl (Wrap err wrapMsg)
      | Inr rows \<Rightarrow>
          (case build_map Map.empty rows of
             Inl err \<Rightarrow> Inl (Wrap err wrapMsg)
           | Inr result \<Rightarrow> Inr result))"

text \<open>The body of the loop of \<open>migrateNotifications\<close>, after a successful \<open>Scan\<close>.\<close>

definition insert_notification ::
  "encoding_json \<Rightarrow> (string \<rightharpoonup> string) \<Rightarrow> (string \<rightharpoonup> string) \<Rightarrow> insertData \<Rightarrow>
   notification_row \<Rightarrow> dest_tx \<Rightarrow> outcome \<times> dest_tx"
where
  "insert_notification js notificationTypeIDFor userIDFor base r destTx =
     (let wrapMsg = ''notification migration failed'';
          notificationTypeID = string_map_get notificationTypeIDFor (r_notificationType r);
          userID = string_map_get userIDFor (r_username r) in
      case Unmarshal js (r_message r) of
        Inl err \<Rightarrow> (Failure (Wrap err wrapMsg), destTx)
      | Inr outgoing \<Rightarrow>
     (case set_message_id outgoing (r_id r) of
        Inl p \<Rightarrow> (Panic p, destTx)
      | Inr outgoing' \<Rightarrow>
     (case Marshal js outgoing' of
        Inl err \<Rightarrow> (Failure (Wrap err wrapMsg), destTx)
      | Inr outgoingJSON \<Rightarrow>
     (case sq_ToSql
             (sq_Values base
                [SString (r_id r), SString notificationTypeID, SString userID,
                 SString (r_subject r), SBool (r_seen r), SBool (r_deleted r),
                 STime (r_timeCreated r), SString (r_message r), SBytes outgoingJSON]) of
        Inl err \<Rightarrow> (Failure (Wrap err wrapMsg), destTx)
      | Inr statement \<Rightarrow>
     (case Exec destTx statement of
        (Some err, destTx') \<Rightarrow> (Failure (Wrap err wrapMsg), destTx')
      | (None, destTx') \<Rightarrow> (Success, destTx'))))))"

fun insert_notifications ::
  "encoding_json \<Rightarrow> (string \<rightharpoonup> string) \<Rightarrow> (string \<rightharpoonup> string) \<Rightarrow> insertData \<Rightarrow>
   (error + notification_row) list \<Rightarrow> dest_tx \<Rightarrow> outcome \<times> dest_tx"
where
  "insert_notifications js tm um base [] destTx = (Success, destTx)"
| "insert_notifications js tm um base (Inl err # sourceRows) destTx =
     (Failure (Wrap err ''notification migration failed''), destTx)"
| "insert_notifications js tm um base (Inr r # sourceRows) destTx =
     (case insert_notification js tm um base r destTx of
        (Success, destTx') \<Rightarrow> insert_notifications js tm um base sourceRows destTx'
      | (failed, destTx') \<Rightarrow> (failed, destTx'))"

definition migrateNotifications ::
  "encoding_json \<Rightarrow> source_tx \<Rightarrow> dest_tx \<Rightarrow> outcome \<times> dest_tx"
where
  "migrateNotifications js sourceTx destTx =
     (let wrapMsg = ''notification migration failed'' in
      case validateDestinationNotificationsTable destTx of
        Some err \<Rightarrow> (Failure (Wrap err wrapMsg), destTx)
      | None \<Rightarrow>
     (case getNotificationTypeIDMap destTx of
        Inl err \<Rightarrow> (Failure (Wrap err wrapMsg), destTx)
      | Inr notificationTypeIDFor \<Rightarrow>
     (case getUserIDMap destTx of
        Inl err \<Rightarrow> (Failure (Wrap err wrapMsg), destTx)
      | Inr userIDFor \<Rightarrow>
     (case src_Query sourceTx sourceQuery (select_notifications sourceTx) of
        Inl err \<Rightarrow> (Failure (Wrap err wrapMsg), destTx)
      | Inr sourceRows \<Rightarrow>
          insert_notifications js notificationTypeIDFor userIDFor
            (sq_Columns (sq_Insert ''notifications'') notification_columns)
            sourceRows destTx))))"

definition runMigration :: "encoding_json \<Rightarrow> source_tx \<Rightarrow> dest_tx \<Rightarrow> outcome \<times> dest_tx" where
  "runMigration js sourceTx destTx =
     (let wrapMsg = ''database migration failed'' in
      case migrateUsers sourceTx destTx of
        (Some err, destTx1) \<Rightarrow> (Failure (Wrap err wrapMsg), destTx1)
      | (None, destTx1) \<Rightarrow>
     (case migrateNotificationTypes sourceTx destTx1 of
        (Some err, destTx2) \<Rightarrow> (Failure (Wrap err wrapMsg), destTx2)
      | (None, destTx2) \<Rightarrow>
     (case migrateNotifications js sourceTx destTx2 of
        (Failure err, destTx3) \<Rightarrow> (Failure (Wrap err wrapMsg), destTx3)
      | (result, destTx3) \<Rightarrow> (result, destTx3))))"

section \<open>Notions used to state the properties\<close>

text \<open>
  The outgoing payload that the loop body computes for a row, when it computes one:
  decode the message, set the identity, encode the result.
\<close>

definition outgoing_json :: "encoding_json \<Rightarrow> notification_row \<Rightarrow> string option" where
  "outgoing_json js r =
     (case Unmarshal js (r_message r) of
        Inl err \<Rightarrow> None
      | Inr outgoing \<Rightarrow>
          (case set_message_id outgoing (r_id r) of
             Inl p \<Rightarrow> None
           | Inr outgoing' \<Rightarrow>
               (case Marshal js outgoing' of Inl err \<Rightarrow> None | Inr out \<Rightarrow> Some out)))"

text \<open>The values of the statement issued for a row, and the row they insert.\<close>

definition row_values ::
  "(string \<rightharpoonup> string) \<Rightarrow> (string \<rightharpoonup> string) \<Rightarrow> notification_row \<Rightarrow> string \<Rightarrow> sqlval list"
where
  "row_values tm um r out =
     [SString (r_id r), SString (string_map_get tm (r_notificationType r)),
      SString (string_map_get um (r_username r)), SString (r_subject r), SBool (r_seen r),
      SBool (r_deleted r), STime (r_timeCreated r), SString (r_message r), SBytes out]"

definition notification_of_row ::
  "(string \<rightharpoonup> string) \<Rightarrow> (string \<rightharpoonup> string) \<Rightarrow> notification_row \<Rightarrow> string \<Rightarrow>
   dst_notification"
where
  "notification_of_row tm um r out =
     \<lparr>dn_id = r_id r, dn_notification_type_id = string_map_get tm (r_notificationType r),
      dn_user_id = string_map_get um (r_username r), dn_subject = r_subject r,
      dn_seen = r_seen r, dn_deleted = r_deleted r, dn_time_created = r_timeCreated r,
      dn_incoming_json = r_message r, dn_outgoing_json = out\<rparr>"

definition notifications_base :: insertData where
  "notifications_base =
     \<lparr>Into = ''notifications'', Columns = notification_columns, Values = []\<rparr>"

text \<open>
  The statement issued and the row inserted for a source row paired with its outgoing
  payload.
\<close>

definition issued ::
  "(string \<rightharpoonup> string) \<Rightarrow> (string \<rightharpoonup> string) \<Rightarrow> notification_row \<times> string \<Rightarrow> insertData"
where
  "issued tm um p = notifications_base\<lparr>Values := [row_values tm um (fst p) (snd p)]\<rparr>"

definition inserted ::
  "(string \<rightharpoonup> string) \<Rightarrow> (string \<rightharpoonup> string) \<Rightarrow> notification_row \<times> string \<Rightarrow>
   dst_notification"
where
  "inserted tm um p = notification_of_row tm um (fst p) (snd p)"

text \<open>The rows that a statement inserts into \<open>notifications\<close>.\<close>

definition statement_rows :: "insertData \<Rightarrow> dst_notification list" where
  "statement_rows st = (case notification_values (Values st) of None \<Rightarrow> [] | Some ns \<Rightarrow> ns)"

section \<open>Example data\<close>

text \<open>
  The example of the specification: one user \<open>alice\<close>, one notification of type \<open>Info\<close>
  with identity \<open>abc-123\<close> and payload \<open>{"message":{"text":"hi"}}\<close>, and an empty
  destination that reports no errors.
\<close>

definition hi_payload :: string where
  \<open>hi_payload = ''{"message":{"text":"hi"}}''\<close>

definition hi_outgoing :: string where
  \<open>hi_outgoing = ''{"message":{"id":"abc-123","text":"hi"}}''\<close>

definition old_id_payload :: string where
  \<open>old_id_payload = ''{"message":{"id":"old"}}''\<close>

definition old_id_outgoing :: string where
  \<open>old_id_outgoing = ''{"message":{"id":"abc-123"}}''\<close>

text \<open>
  The \<open>Marshal\<close> of the examples: the encoding of the two shapes of rewritten value that
  occur in them, for texts without characters that need escaping.
\<close>

definition example_Marshal :: "gomap \<Rightarrow> error + string" where
  \<open>example_Marshal m =
     (case m of
        [(k, JObject [(k1, JString t), (k2, JString i)])] \<Rightarrow>
          if k = ''message'' \<and> k1 = ''text'' \<and> k2 = ''id''
          then Inr (''{"message":{"id":"'' @ i @ ''","text":"'' @ t @ ''"}}'')
          else Inl ''json: unsupported value''
      | [(k, JObject [(k2, JString i)])] \<Rightarrow>
          if k = ''message'' \<and> k2 = ''id''
          then Inr (''{"message":{"id":"'' @ i @ ''"}}'')
          else Inl ''json: unsupported value''
      | _ \<Rightarrow> Inl ''json: unsupported value'')\<close>

text \<open>
  \<open>encoding/json\<close> on the payloads used in the examples: the decoded values of
  \<open>hi_payload\<close>, \<open>old_id_payload\<close>, \<open>{}\<close> and \<open>null\<close>, and the decoder's error for the
  truncated text \<open>{\<close>. Other texts do not occur in the examples.
\<close>

definition example_json :: encoding_json where
  "example_json =
     \<lparr>Unmarshal = (\<lambda>s.
        if s = hi_payload then
          Inr (Some [(''message'', JObject [(''text'', JString ''hi'')])])
        else if s = old_id_payload then
          Inr (Some [(''message'', JObject [(''id'', JString ''old'')])])
        else if s = ''{}'' then Inr (Some [])
        else if s = ''null'' then Inr None
        else Inl ''unexpected end of JSON input''),
      Marshal = example_Marshal\<rparr>"

definition alice :: src_user where
  "alice = \<lparr>u_id = ''1'', u_username = ''alice''\<rparr>"

definition hi_notification :: src_notification where
  "hi_notification =
     \<lparr>n_uuid = ''abc-123'', n_type = ''Info'', n_user_id = ''1'', n_subject = ''greeting'',
      n_seen = False, n_deleted = False, n_date_created = 5, n_message = hi_payload\<rparr>"

definition example_source :: source_tx where
  "example_source =
     \<lparr>src_users = [alice], src_notifications = [hi_notification],
      src_query_err = (\<lambda>q. None), src_scan_err = (\<lambda>q i. None)\<rparr>"

definition empty_dest :: dest_tx where
  "empty_dest =
     \<lparr>users = [], notification_types = [], notifications = [], id_seq = 0,
      gen_id = (\<lambda>k. ''dst-'' @ replicate k (CHR ''i'')),
      dst_query_err = (\<lambda>q. None), dst_scan_err = (\<lambda>q i. None),
      dst_exec_err = (\<lambda>k st. None), executed = []\<rparr>"

definition bob :: dst_user where
  "bob = \<lparr>du_id = ''dst-b'', du_username = ''bob''\<rparr>"

definition warning_type :: dst_notification_type where
  "warning_type = \<lparr>nt_id = ''dst-w'', nt_name = ''warning''\<rparr>"

text \<open>Three notifications whose types differ in case only, or not at all.\<close>

definition mixed_case_source :: source_tx where
  "mixed_case_source =
     example_source\<lparr>src_notifications :=
        [hi_notification, hi_notification\<lparr>n_uuid := ''def-456'', n_type := ''INFO''\<rparr>,
         hi_notification\<lparr>n_uuid := ''ghi-789'', n_type := ''Warning''\<rparr>]\<rparr>"

text \<open>
  The destination after the first two stages have run on an empty destination, and
  variations of the example source: a second, older notification; a notification of a
  user that does not exist; a payload whose \<open>message\<close> already has an \<open>id\<close>.
\<close>

definition prepared_dest :: "source_tx \<Rightarrow> dest_tx" where
  "prepared_dest s = snd (migrateNotificationTypes s (snd (migrateUsers s empty_dest)))"

definition two_notifications_source :: source_tx where
  "two_notifications_source =
     example_source\<lparr>src_notifications :=
        [hi_notification, hi_notification\<lparr>n_uuid := ''def-456'', n_date_created := 3\<rparr>]\<rparr>"

definition orphan_source :: source_tx where
  "orphan_source =
     example_source\<lparr>src_notifications :=
        [hi_notification, hi_notification\<lparr>n_uuid := ''def-456'', n_user_id := ''2''\<rparr>]\<rparr>"

definition old_id_source :: source_tx where
  "old_id_source =
     example_source\<lparr>src_notifications := [hi_notification\<lparr>n_message := old_id_payload\<rparr>]\<rparr>"

text \<open>
  Sources without users and without notifications; sources whose only notification has
  the truncated payload \<open>{\<close>, under two different identities; a source whose only
  notification has the payload \<open>{}\<close>.
\<close>

definition no_users_source :: source_tx where
  "no_users_source = example_source\<lparr>src_users := []\<rparr>"

definition no_notifications_source :: source_tx where
  "no_notifications_source = example_source\<lparr>src_notifications := []\<rparr>"

definition truncated_source :: source_tx where
  "truncated_source =
     example_source\<lparr>src_notifications := [hi_notification\<lparr>n_message := ''{''\<rparr>]\<rparr>"

definition truncated_other_source :: source_tx where
  "truncated_other_source =
     example_source\<lparr>src_notifications :=
       [hi_notification\<lparr>n_uuid := ''def-456'', n_message := ''{''\<rparr>]\<rparr>"

definition no_message_source :: source_tx where
  "no_message_source =
     example_source\<lparr>src_notifications := [hi_notification\<lparr>n_message := ''{}''\<rparr>]\<rparr>"

section \<open>Unfolding the model on concrete data\<close>

lemmas query_defs =
  users_query_def types_query_def sourceQuery_def count_users_query_def
  count_types_query_def count_notifications_query_def type_ids_query_def user_ids_query_def

lemmas builder_defs = sq_Insert_def sq_Columns_def sq_Values_def sq_ToSql_def

lemmas database_defs =
  src_Query_def dst_Query_def dst_QueryRow_count_def scanned_def select_usernames_def
  select_distinct_types_def select_notifications_def join_row_def lower_def lower_char_def
  Exec_def apply_insert_def notification_columns_def notification_of_values_def

lemmas stage_defs =
  validateDestinationUsersTable_def migrateUsers_def
  validateDestinationNotificationTypesTable_def migrateNotificationTypes_def
  validateDestinationNotificationsTable_def getNotificationTypeIDMap_def getUserIDMap_def
  insert_notification_def migrateNotifications_def runMigration_def Wrap_def Let_def
  string_map_get_def map_get_def set_message_id_def conversion_panic_def

lemmas example_defs =
  hi_payload_def hi_outgoing_def old_id_payload_def old_id_outgoing_def example_json_def
  example_Marshal_def
  prepared_dest_def two_notifications_source_def orphan_source_def old_id_source_def no_users_source_def no_notifications_source_def truncated_source_def truncated_other_source_def no_message_source_def alice_def hi_notification_def example_source_def empty_dest_def bob_def warning_type_def

lemmas model_defs = query_defs builder_defs database_defs stage_defs example_defs

section \<open>Result sets and the statement builder\<close>

lemma scanned_length: "length (scanned se xs) = length xs"
  by (simp add: scanned_def)

lemma scanned_nth:
  "i < length xs \<Longrightarrow>
   scanned se xs ! i = (case se i of Some e \<Rightarrow> Inl e | None \<Rightarrow> Inr (xs ! i))"
  by (simp add: scanned_def nth_enumerate_eq)

lemma scanned_prefix:
  assumes "scanned se xs = map Inr rs @ rest"
  shows "rs = take (length rs) xs"
proof (rule nth_equalityI)
  have len: "length rs \<le> length xs"
    using arg_cong [OF assms, of length] by (simp add: scanned_length)
  then show "length rs = length (take (length rs) xs)" by simp
  fix i assume i: "i < length rs"
  then have "scanned se xs ! i = Inr (rs ! i)"
    by (simp add: assms nth_append)
  moreover have "i < length xs" using i len by simp
  ultimately show "rs ! i = take (length rs) xs ! i"
    using i by (simp add: scanned_nth split: option.splits)
qed

lemma scanned_all_Inr:
  assumes "scanned se xs = map Inr rs"
  shows "rs = xs"
proof -
  have "length rs = length xs"
    using arg_cong [OF assms, of length] by (simp add: scanned_length)
  moreover have "rs = take (length rs) xs"
    using scanned_prefix [of se xs rs "[]"] assms by simp
  ultimately show ?thesis by simp
qed

lemma scanned_no_fault: "scanned (\<lambda>i. None) xs = map Inr xs"
  by (rule nth_equalityI) (simp_all add: scanned_length scanned_nth)

lemma scanned_Nil: "scanned se [] = []"
  by (simp add: scanned_def)

lemma add_values_Inr:
  "add_values b rows = Inr b' \<Longrightarrow>
   \<exists>vs. rows = map Inr vs \<and> b' = b\<lparr>Values := Values b @ map (\<lambda>v. [SString v]) vs\<rparr>"
proof (induction b rows rule: add_values.induct)
  case (1 builder)
  then show ?case by simp
next
  case (2 builder err sourceRows)
  then show ?case by simp
next
  case (3 builder v sourceRows)
  then obtain vs where "sourceRows = map Inr vs"
    and "b' = (sq_Values builder [SString v])\<lparr>Values := Values (sq_Values builder [SString v]) @ map (\<lambda>v. [SString v]) vs\<rparr>"
    by auto
  then show ?case
    by (intro exI [of _ "v # vs"]) (simp add: sq_Values_def)
qed

lemma username_values_map: "username_values (map (\<lambda>v. [SString v]) vs) = Some vs"
  by (induction vs) simp_all

lemma insert_users_fields:
  "notification_types (insert_users d us) = notification_types d"
  "notifications (insert_users d us) = notifications d"
  "gen_id (insert_users d us) = gen_id d"
  "dst_query_err (insert_users d us) = dst_query_err d"
  "dst_scan_err (insert_users d us) = dst_scan_err d"
  "dst_exec_err (insert_users d us) = dst_exec_err d"
  "executed (insert_users d us) = executed d"
  by (induction d us rule: insert_users.induct) simp_all

lemma insert_users_names:
  "map du_username (users (insert_users d us)) = map du_username (users d) @ us"
  by (induction d us rule: insert_users.induct) simp_all

lemma insert_types_fields:
  "users (insert_types d ts) = users d"
  "notifications (insert_types d ts) = notifications d"
  "gen_id (insert_types d ts) = gen_id d"
  "dst_query_err (insert_types d ts) = dst_query_err d"
  "dst_scan_err (insert_types d ts) = dst_scan_err d"
  "dst_exec_err (insert_types d ts) = dst_exec_err d"
  "executed (insert_types d ts) = executed d"
  by (induction d ts rule: insert_types.induct) simp_all

lemma insert_types_names:
  "map nt_name (notification_types (insert_types d ts)) = map nt_name (notification_types d) @ ts"
  by (induction d ts rule: insert_types.induct) simp_all


lemma Exec_fields:
  assumes "Exec d st = (res, d')"
  shows "executed d' = executed d @ [st]"
    and "dst_query_err d' = dst_query_err d"
    and "dst_scan_err d' = dst_scan_err d"
    and "dst_exec_err d' = dst_exec_err d"
    and "gen_id d' = gen_id d"
  using assms
  by (auto simp: Exec_def Let_def apply_insert_def insert_users_fields insert_types_fields
           split: option.splits sum.splits if_splits)

lemma Exec_rejected:
  assumes "Exec d st = (Some e, d')"
  shows "d' = d\<lparr>executed := executed d @ [st]\<rparr>"
  using assms by (auto simp: Exec_def Let_def split: option.splits sum.splits)

lemma Exec_users:
  assumes "Exec d \<lparr>Into = ''users'', Columns = [''username''],
                    Values = map (\<lambda>v. [SString v]) vs\<rparr> = (None, d')"
  shows "map du_username (users d') = map du_username (users d) @ vs"
    and "notification_types d' = notification_types d"
    and "notifications d' = notifications d"
  using assms
  by (auto simp: Exec_def Let_def apply_insert_def username_values_map insert_users_fields
                 insert_users_names
           split: option.splits sum.splits if_splits)

lemma Exec_types:
  assumes "Exec d \<lparr>Into = ''notification_types'', Columns = [''name''],
                    Values = map (\<lambda>v. [SString v]) vs\<rparr> = (None, d')"
  shows "map nt_name (notification_types d') = map nt_name (notification_types d) @ vs"
    and "users d' = users d"
    and "notifications d' = notifications d"
  using assms
  by (auto simp: Exec_def Let_def apply_insert_def username_values_map insert_types_fields
                 insert_types_names
           split: option.splits sum.splits if_splits)


lemma validate_users_None:
  "validateDestinationUsersTable d = None \<longleftrightarrow>
   dst_query_err d count_users_query = None \<and> users d = []"
  by (simp add: validateDestinationUsersTable_def dst_QueryRow_count_def Let_def
           split: option.splits)

lemma validate_types_None:
  "validateDestinationNotificationTypesTable d = None \<longleftrightarrow>
   dst_query_err d count_types_query = None \<and> notification_types d = []"
  by (simp add: validateDestinationNotificationTypesTable_def dst_QueryRow_count_def Let_def
           split: option.splits)

lemma validate_notifications_None:
  "validateDestinationNotificationsTable d = None \<longleftrightarrow>
   dst_query_err d count_notifications_query = None \<and> notifications d = []"
  by (simp add: validateDestinationNotificationsTable_def dst_QueryRow_count_def Let_def
           split: option.splits)

lemma users_builder:
  "sq_Columns (sq_Insert ''users'') [''username''] =
   \<lparr>Into = ''users'', Columns = [''username''], Values = []\<rparr>"
  by (simp add: sq_Columns_def sq_Insert_def)

lemma types_builder:
  "sq_Columns (sq_Insert ''notification_types'') [''name''] =
   \<lparr>Into = ''notification_types'', Columns = [''name''], Values = []\<rparr>"
  by (simp add: sq_Columns_def sq_Insert_def)

lemma sq_ToSql_Inr: "sq_ToSql b = Inr st \<Longrightarrow> st = b \<and> Values b \<noteq> [] \<and> Into b \<noteq> []"
  by (simp add: sq_ToSql_def split: if_splits)

lemma migrateUsers_success:
  assumes "migrateUsers s d = (None, d')"
  shows "users d = []"
    and "map du_username (users d') = select_usernames s"
    and "select_usernames s \<noteq> []"
    and "executed d' = executed d @
           [\<lparr>Into = ''users'', Columns = [''username''],
             Values = map (\<lambda>v. [SString v]) (select_usernames s)\<rparr>]"
    and "notification_types d' = notification_types d"
    and "notifications d' = notifications d"
    and "dst_query_err d' = dst_query_err d"
    and "dst_scan_err d' = dst_scan_err d"
    and "dst_exec_err d' = dst_exec_err d"
    and "gen_id d' = gen_id d"
proof -
  from assms have v: "validateDestinationUsersTable d = None"
    by (auto simp: migrateUsers_def Let_def split: option.splits)
  with assms obtain rows where q: "src_Query s users_query (select_usernames s) = Inr rows"
    by (auto simp: migrateUsers_def Let_def split: sum.splits)
  with v assms obtain b where
    b: "add_values \<lparr>Into = ''users'', Columns = [''username''], Values = []\<rparr> rows = Inr b"
    by (auto simp: migrateUsers_def Let_def users_builder split: sum.splits)
  with v q assms obtain st where st: "sq_ToSql b = Inr st"
    by (auto simp: migrateUsers_def Let_def users_builder split: sum.splits)
  with v q b assms have ex: "Exec d st = (None, d')"
    by (auto simp: migrateUsers_def Let_def users_builder split: option.splits prod.splits)
  from add_values_Inr [OF b] obtain vs where
    vs: "rows = map Inr vs"
    and b': "b = \<lparr>Into = ''users'', Columns = [''username''],
                  Values = map (\<lambda>v. [SString v]) vs\<rparr>"
    by auto
  from q vs have "scanned (src_scan_err s users_query) (select_usernames s) = map Inr vs"
    by (simp add: src_Query_def split: option.splits)
  then have vs_eq: "vs = select_usernames s" by (rule scanned_all_Inr)
  from sq_ToSql_Inr [OF st] have st_eq: "st = b" and ne: "Values b \<noteq> []" by simp_all
  have ex': "Exec d \<lparr>Into = ''users'', Columns = [''username''],
                     Values = map (\<lambda>v. [SString v]) vs\<rparr> = (None, d')"
    using ex st_eq b' by simp
  show "users d = []" using v by (simp add: validate_users_None)
  then show "map du_username (users d') = select_usernames s"
    using Exec_users(1) [OF ex'] vs_eq by simp
  show "select_usernames s \<noteq> []" using ne b' vs_eq by simp
  show "executed d' = executed d @
           [\<lparr>Into = ''users'', Columns = [''username''],
             Values = map (\<lambda>v. [SString v]) (select_usernames s)\<rparr>]"
    using Exec_fields(1) [OF ex'] vs_eq by simp
  show "notification_types d' = notification_types d" by (rule Exec_users(2) [OF ex'])
  show "notifications d' = notifications d" by (rule Exec_users(3) [OF ex'])
  show "dst_query_err d' = dst_query_err d" by (rule Exec_fields(2) [OF ex])
  show "dst_scan_err d' = dst_scan_err d" by (rule Exec_fields(3) [OF ex])
  show "dst_exec_err d' = dst_exec_err d" by (rule Exec_fields(4) [OF ex])
  show "gen_id d' = gen_id d" by (rule Exec_fields(5) [OF ex])
qed

lemma migrateUsers_failure:
  assumes "migrateUsers s d = (Some e, d')"
  shows "\<exists>x. e = Wrap x ''user migration failed''"
    and "users d' = users d"
    and "notification_types d' = notification_types d"
    and "notifications d' = notifications d"
    and "dst_query_err d' = dst_query_err d"
    and "dst_scan_err d' = dst_scan_err d"
    and "dst_exec_err d' = dst_exec_err d"
    and "gen_id d' = gen_id d"
  using assms
  by (auto simp: migrateUsers_def Let_def
           split: option.splits sum.splits prod.splits
           dest!: Exec_rejected)

lemma migrateNotificationTypes_success:
  assumes "migrateNotificationTypes s d = (None, d')"
  shows "notification_types d = []"
    and "map nt_name (notification_types d') = select_distinct_types s"
    and "select_distinct_types s \<noteq> []"
    and "executed d' = executed d @
           [\<lparr>Into = ''notification_types'', Columns = [''name''],
             Values = map (\<lambda>v. [SString v]) (select_distinct_types s)\<rparr>]"
    and "users d' = users d"
    and "notifications d' = notifications d"
    and "dst_query_err d' = dst_query_err d"
    and "dst_scan_err d' = dst_scan_err d"
    and "dst_exec_err d' = dst_exec_err d"
    and "gen_id d' = gen_id d"
proof -
  from assms have v: "validateDestinationNotificationTypesTable d = None"
    by (auto simp: migrateNotificationTypes_def Let_def split: option.splits)
  with assms obtain rows where q: "src_Query s types_query (select_distinct_types s) = Inr rows"
    by (auto simp: migrateNotificationTypes_def Let_def split: sum.splits)
  with v assms obtain b where
    b: "add_values \<lparr>Into = ''notification_types'', Columns = [''name''], Values = []\<rparr> rows = Inr b"
    by (auto simp: migrateNotificationTypes_def Let_def types_builder split: sum.splits)
  with v q assms obtain st where st: "sq_ToSql b = Inr st"
    by (auto simp: migrateNotificationTypes_def Let_def types_builder split: sum.splits)
  with v q b assms have ex: "Exec d st = (None, d')"
    by (auto simp: migrateNotificationTypes_def Let_def types_builder split: option.splits prod.splits)
  from add_values_Inr [OF b] obtain vs where
    vs: "rows = map Inr vs"
    and b': "b = \<lparr>Into = ''notification_types'', Columns = [''name''],
                  Values = map (\<lambda>v. [SString v]) vs\<rparr>"
    by auto
  from q vs have "scanned (src_scan_err s types_query) (select_distinct_types s) = map Inr vs"
    by (simp add: src_Query_def split: option.splits)
  then have vs_eq: "vs = select_distinct_types s" by (rule scanned_all_Inr)
  from sq_ToSql_Inr [OF st] have st_eq: "st = b" and ne: "Values b \<noteq> []" by simp_all
  have ex': "Exec d \<lparr>Into = ''notification_types'', Columns = [''name''],
                     Values = map (\<lambda>v. [SString v]) vs\<rparr> = (None, d')"
    using ex st_eq b' by simp
  show "notification_types d = []" using v by (simp add: validate_types_None)
  then show "map nt_name (notification_types d') = select_distinct_types s"
    using Exec_types(1) [OF ex'] vs_eq by simp
  show "select_distinct_types s \<noteq> []" using ne b' vs_eq by simp
  show "executed d' = executed d @
           [\<lparr>Into = ''notification_types'', Columns = [''name''],
             Values = map (\<lambda>v. [SString v]) (select_distinct_types s)\<rparr>]"
    using Exec_fields(1) [OF ex'] vs_eq by simp
  show "users d' = users d" by (rule Exec_types(2) [OF ex'])
  show "notifications d' = notifications d" by (rule Exec_types(3) [OF ex'])
  show "dst_query_err d' = dst_query_err d" by (rule Exec_fields(2) [OF ex])
  show "dst_scan_err d' = dst_scan_err d" by (rule Exec_fields(3) [OF ex])
  show "dst_exec_err d' = dst_exec_err d" by (rule Exec_fields(4) [OF ex])
  show "gen_id d' = gen_id d" by (rule Exec_fields(5) [OF ex])
qed

lemma migrateNotificationTypes_failure:
  assumes "migrateNotificationTypes s d = (Some e, d')"
  shows "\<exists>x. e = Wrap x ''notification type migration failed''"
    and "users d' = users d"
    and "notification_types d' = notification_types d"
    and "notifications d' = notifications d"
    and "dst_query_err d' = dst_query_err d"
    and "dst_scan_err d' = dst_scan_err d"
    and "dst_exec_err d' = dst_exec_err d"
    and "gen_id d' = gen_id d"
  using assms
  by (auto simp: migrateNotificationTypes_def Let_def
           split: option.splits sum.splits prod.splits
           dest!: Exec_rejected)


lemma notifications_base_eq:
  "sq_Columns (sq_Insert ''notifications'') notification_columns = notifications_base"
  by (simp add: sq_Columns_def sq_Insert_def notifications_base_def)

lemma notification_of_values_row:
  "notification_of_values (row_values tm um r out) = Some (notification_of_row tm um r out)"
  by (simp add: notification_of_values_def row_values_def notification_of_row_def)

lemma Exec_notification:
  assumes "Exec d (notifications_base\<lparr>Values := [row_values tm um r out]\<rparr>) = (None, d')"
  shows "notifications d' = notifications d @ [notification_of_row tm um r out]"
    and "users d' = users d"
    and "notification_types d' = notification_types d"
  using assms
  by (auto simp: Exec_def Let_def apply_insert_def notifications_base_def
                 notification_of_values_row
           split: option.splits sum.splits if_splits)


lemma sq_ToSql_row:
  "sq_ToSql (sq_Values notifications_base vals) = Inr (notifications_base\<lparr>Values := [vals]\<rparr>)"
  by (simp add: sq_ToSql_def sq_Values_def notifications_base_def)

lemma insert_notification_None:
  assumes "insert_notification js tm um notifications_base r d = (res, d')"
    and "outgoing_json js r = None"
  shows "d' = d" and "res \<noteq> Success"
  using assms
  by (auto simp: insert_notification_def outgoing_json_def Let_def split: sum.splits)

lemma insert_notification_Some:
  assumes "insert_notification js tm um notifications_base r d = (res, d')"
    and "outgoing_json js r = Some out"
  shows "(res = Success \<and>
          Exec d (notifications_base\<lparr>Values := [row_values tm um r out]\<rparr>) = (None, d')) \<or>
         (\<exists>e. res = Failure (Wrap e ''notification migration failed'') \<and>
          Exec d (notifications_base\<lparr>Values := [row_values tm um r out]\<rparr>) = (Some e, d'))"
  using assms
  by (auto simp: insert_notification_def outgoing_json_def Let_def sq_ToSql_row
                 row_values_def
           split: sum.splits option.splits prod.splits)

lemma insert_notifications_trace:
  assumes "insert_notifications js tm um notifications_base rows d = (res, d')"
  shows "\<exists>ps rest k.
           rows = map (\<lambda>p. Inr (fst p)) ps @ rest \<and>
           (\<forall>p\<in>set ps. outgoing_json js (fst p) = Some (snd p)) \<and>
           executed d' = executed d @ map (issued tm um) ps \<and>
           notifications d' = notifications d @ map (inserted tm um) (take k ps) \<and>
           (res = Success \<longrightarrow> rest = [] \<and> k = length ps) \<and>
           users d' = users d \<and> notification_types d' = notification_types d"
  using assms
proof (induction rows arbitrary: d)
  case Nil
  then have "res = Success" and "d' = d" by simp_all
  then show ?case
    by (intro exI [of _ "[]"] exI [of _ 0]) simp
next
  case (Cons x rows)
  show ?case
  proof (cases x)
    case (Inl err)
    with Cons.prems have "d' = d" and "res \<noteq> Success" by auto
    then show ?thesis
      by (intro exI [of _ "[]"] exI [of _ "x # rows"] exI [of _ 0]) simp
  next
    case (Inr r)
    obtain res1 d1 where step: "insert_notification js tm um notifications_base r d = (res1, d1)"
      by (cases "insert_notification js tm um notifications_base r d") auto
    show ?thesis
    proof (cases "outgoing_json js r")
      case None
      from insert_notification_None [OF step None] have "d1 = d" and "res1 \<noteq> Success"
        by simp_all
      with Cons.prems Inr step have "d' = d" and "res \<noteq> Success"
        by (auto split: outcome.splits)
      then show ?thesis
        by (intro exI [of _ "[]"] exI [of _ "x # rows"] exI [of _ 0]) simp
    next
      case (Some out)
      let ?st = "notifications_base\<lparr>Values := [row_values tm um r out]\<rparr>"
      from insert_notification_Some [OF step Some]
      consider (ok) "res1 = Success" "Exec d ?st = (None, d1)"
        | (rejected) e where "res1 = Failure (Wrap e ''notification migration failed'')"
            "Exec d ?st = (Some e, d1)"
        by blast
      then show ?thesis
      proof cases
        case ok
        with Cons.prems Inr step
        have rec: "insert_notifications js tm um notifications_base rows d1 = (res, d')"
          by simp
        from Cons.IH [OF rec] obtain ps rest k where
          ih: "rows = map (\<lambda>p. Inr (fst p)) ps @ rest"
            "\<forall>p\<in>set ps. outgoing_json js (fst p) = Some (snd p)"
            "executed d' = executed d1 @ map (issued tm um) ps"
            "notifications d' = notifications d1 @ map (inserted tm um) (take k ps)"
            "res = Success \<longrightarrow> rest = [] \<and> k = length ps"
            "users d' = users d1" "notification_types d' = notification_types d1"
          by blast
        have d1: "executed d1 = executed d @ [issued tm um (r, out)]"
          "notifications d1 = notifications d @ [inserted tm um (r, out)]"
          "users d1 = users d" "notification_types d1 = notification_types d"
          using Exec_fields(1) [OF ok(2)] Exec_notification [OF ok(2)]
          by (simp_all add: issued_def inserted_def)
        show ?thesis
          using ih d1 Inr Some
          by (intro exI [of _ "(r, out) # ps"] exI [of _ rest] exI [of _ "Suc k"]) simp
      next
        case rejected
        with Cons.prems Inr step have res: "d' = d1" "res \<noteq> Success" by auto
        from Exec_rejected [OF rejected(2)]
        have "d1 = d\<lparr>executed := executed d @ [issued tm um (r, out)]\<rparr>"
          by (simp add: issued_def)
        with res show ?thesis
          using Inr Some
          by (intro exI [of _ "[(r, out)]"] exI [of _ rows] exI [of _ 0]) simp
      qed
    qed
  qed
qed


lemma insert_notification_Failure:
  "insert_notification js tm um base r d = (Failure e, d') \<Longrightarrow>
   \<exists>x. e = Wrap x ''notification migration failed''"
  by (auto simp: insert_notification_def Let_def split: sum.splits option.splits prod.splits)

lemma insert_notifications_Failure:
  "insert_notifications js tm um base rows d = (Failure e, d') \<Longrightarrow>
   \<exists>x. e = Wrap x ''notification migration failed''"
proof (induction js tm um base rows d rule: insert_notifications.induct)
  case (1 js tm um base destTx)
  then show ?case by simp
next
  case (2 js tm um base err sourceRows destTx)
  then show ?case by auto
next
  case (3 js tm um base r sourceRows destTx)
  obtain res1 d1 where step: "insert_notification js tm um base r destTx = (res1, d1)"
    by (cases "insert_notification js tm um base r destTx") auto
  show ?case
  proof (cases res1)
    case Success
    with 3 step show ?thesis by simp
  next
    case (Failure x)
    with 3 step have "x = e" by simp
    with Failure step show ?thesis by (auto dest: insert_notification_Failure)
  next
    case (Panic p)
    with 3 step show ?thesis by simp
  qed
qed

lemma migrateNotifications_cases:
  assumes "migrateNotifications js s d = (res, d')"
  shows "(d' = d \<and> (\<exists>x. res = Failure (Wrap x ''notification migration failed''))) \<or>
         (\<exists>tm um rows.
            validateDestinationNotificationsTable d = None \<and>
            getNotificationTypeIDMap d = Inr tm \<and> getUserIDMap d = Inr um \<and>
            src_Query s sourceQuery (select_notifications s) = Inr rows \<and>
            insert_notifications js tm um notifications_base rows d = (res, d'))"
  using assms
  by (auto simp: migrateNotifications_def Let_def notifications_base_eq
           split: option.splits sum.splits)

lemma migrateNotifications_Failure:
  assumes "migrateNotifications js s d = (Failure e, d')"
  shows "\<exists>x. e = Wrap x ''notification migration failed''"
  using migrateNotifications_cases [OF assms] insert_notifications_Failure by blast

section \<open>The order of the stages\<close>

text \<open>
  Claim C9. \<open>runMigration\<close> runs the user stage, then the notification-type stage on the
  destination as the user stage left it, then the notification stage on the destination
  as the notification-type stage left it. The first stage that returns an error ends the
  run: the result is that error wrapped with \<open>database migration failed\<close>, the
  destination is as the failing stage left it, and the error of the failing stage
  starts with the text of that stage.
\<close>

theorem runMigration_stage_order:
  "(\<forall>e d1. migrateUsers s d = (Some e, d1) \<longrightarrow>
      runMigration js s d = (Failure (Wrap e ''database migration failed''), d1) \<and>
      (\<exists>x. e = Wrap x ''user migration failed'')) \<and>
   (\<forall>d1 e d2. migrateUsers s d = (None, d1) \<and> migrateNotificationTypes s d1 = (Some e, d2) \<longrightarrow>
      runMigration js s d = (Failure (Wrap e ''database migration failed''), d2) \<and>
      (\<exists>x. e = Wrap x ''notification type migration failed'')) \<and>
   (\<forall>d1 d2 e d3. migrateUsers s d = (None, d1) \<and> migrateNotificationTypes s d1 = (None, d2) \<and>
      migrateNotifications js s d2 = (Failure e, d3) \<longrightarrow>
      runMigration js s d = (Failure (Wrap e ''database migration failed''), d3) \<and>
      (\<exists>x. e = Wrap x ''notification migration failed'')) \<and>
   (\<forall>d1 d2 d3. migrateUsers s d = (None, d1) \<and> migrateNotificationTypes s d1 = (None, d2) \<and>
      migrateNotifications js s d2 = (Success, d3) \<longrightarrow>
      runMigration js s d = (Success, d3))"
  by (auto simp: runMigration_def Let_def
           dest: migrateUsers_failure(1) migrateNotificationTypes_failure(1)
                 migrateNotifications_Failure)

theorem runMigration_stage_order_witness:
  "runMigration example_json example_source (empty_dest\<lparr>users := [bob]\<rparr>) =
     (Failure ''database migration failed: user migration failed: the destination users table is not empty'',
      empty_dest\<lparr>users := [bob]\<rparr>) \<and>
   fst (runMigration example_json example_source
          (empty_dest\<lparr>notification_types := [warning_type]\<rparr>)) =
     Failure ''database migration failed: notification type migration failed: the destination notification_types table is not empty'' \<and>
   users (snd (runMigration example_json example_source
                 (empty_dest\<lparr>notification_types := [warning_type]\<rparr>))) =
     [\<lparr>du_id = ''dst-'', du_username = ''alice''\<rparr>]"
proof -
  let ?d = "empty_dest\<lparr>users := [bob]\<rparr>"
  let ?d' = "empty_dest\<lparr>notification_types := [warning_type]\<rparr>"
  let ?d1 = "empty_dest\<lparr>notification_types := [warning_type],
               users := [\<lparr>du_id = ''dst-'', du_username = ''alice''\<rparr>], id_seq := 1,
               executed := [\<lparr>Into = ''users'', Columns = [''username''],
                             Values = [[SString ''alice'']]\<rparr>]\<rparr>"
  have a: "migrateUsers example_source ?d =
             (Some ''user migration failed: the destination users table is not empty'', ?d)"
    by (simp add: model_defs)
  have b: "migrateUsers example_source ?d' = (None, ?d1)"
    by (simp add: model_defs)
  have c: "migrateNotificationTypes example_source ?d1 =
             (Some ''notification type migration failed: the destination notification_types table is not empty'', ?d1)"
    by (simp add: model_defs)
  from runMigration_stage_order [of example_source ?d example_json] a
  have "runMigration example_json example_source ?d =
          (Failure (Wrap ''user migration failed: the destination users table is not empty''
                      ''database migration failed''), ?d)"
    by blast
  moreover from runMigration_stage_order [of example_source ?d' example_json] b c
  have "runMigration example_json example_source ?d' =
          (Failure (Wrap ''notification type migration failed: the destination notification_types table is not empty''
                      ''database migration failed''), ?d1)"
    by blast
  ultimately show ?thesis
    by (simp add: Wrap_def empty_dest_def)
qed

section \<open>The notification types that are migrated\<close>

lemma lower_char_idem: "lower_char (lower_char c) = lower_char c"
  by (simp add: lower_char_def)

lemma lower_idem: "lower (lower s) = lower s"
  by (simp add: lower_def lower_char_idem)

text \<open>
  Claim C7. When \<open>migrateNotificationTypes\<close> succeeds, the destination table
  \<open>notification_types\<close> was empty before and holds afterwards exactly the distinct
  lower-cased type strings of the source notifications: the names are pairwise different,
  their set is the set of the lower-cased source types, their number is the number of
  distinct lower-cased source types, and lower-casing a name does not change it.
\<close>

theorem migrateNotificationTypes_distinct_lowercase:
  assumes "migrateNotificationTypes s d = (None, d')"
  shows "notification_types d = [] \<and>
         map nt_name (notification_types d') =
           remdups (map (\<lambda>n. lower (n_type n)) (src_notifications s)) \<and>
         distinct (map nt_name (notification_types d')) \<and>
         set (map nt_name (notification_types d')) =
           (\<lambda>n. lower (n_type n)) ` set (src_notifications s) \<and>
         length (notification_types d') =
           card ((\<lambda>n. lower (n_type n)) ` set (src_notifications s)) \<and>
         (\<forall>t\<in>set (notification_types d'). lower (nt_name t) = nt_name t)"
proof -
  let ?names = "map nt_name (notification_types d')"
  let ?types = "map (\<lambda>n. lower (n_type n)) (src_notifications s)"
  have names: "?names = remdups ?types"
    using migrateNotificationTypes_success(2) [OF assms]
    by (simp add: select_distinct_types_def)
  have empty: "notification_types d = []"
    by (rule migrateNotificationTypes_success(1) [OF assms])
  have dist: "distinct ?names" by (simp add: names)
  have set_eq: "set ?names = (\<lambda>n. lower (n_type n)) ` set (src_notifications s)"
    by (simp add: names)
  have "length (notification_types d') = length ?names" by simp
  also have "\<dots> = card (set ?names)" using distinct_card [OF dist] by simp
  finally have len: "length (notification_types d') =
      card ((\<lambda>n. lower (n_type n)) ` set (src_notifications s))"
    unfolding set_eq .
  have low: "\<forall>t\<in>set (notification_types d'). lower (nt_name t) = nt_name t"
  proof
    fix t assume "t \<in> set (notification_types d')"
    then have "nt_name t \<in> set ?names" by simp
    then have "nt_name t \<in> (\<lambda>n. lower (n_type n)) ` set (src_notifications s)"
      unfolding set_eq .
    then obtain n :: src_notification where "nt_name t = lower (n_type n)" by blast
    then show "lower (nt_name t) = nt_name t" by (simp add: lower_idem)
  qed
  from empty names dist set_eq len low show ?thesis by blast
qed

theorem migrateNotificationTypes_distinct_lowercase_witness:
  "fst (migrateNotificationTypes mixed_case_source empty_dest) = None \<and>
   map nt_name
     (notification_types (snd (migrateNotificationTypes mixed_case_source empty_dest))) =
     [''info'', ''warning''] \<and>
   card ((\<lambda>n. lower (n_type n)) ` set (src_notifications mixed_case_source)) = 2"
proof -
  obtain d' where h: "migrateNotificationTypes mixed_case_source empty_dest = (None, d')"
    by (simp add: model_defs mixed_case_source_def)
  from migrateNotificationTypes_distinct_lowercase [OF h]
  have m: "map nt_name (notification_types d') =
          remdups (map (\<lambda>n. lower (n_type n)) (src_notifications mixed_case_source))"
    and l: "length (notification_types d') =
          card ((\<lambda>n. lower (n_type n)) ` set (src_notifications mixed_case_source))"
    by blast+
  have r: "remdups (map (\<lambda>n. lower (n_type n)) (src_notifications mixed_case_source)) =
      [''info'', ''warning'']"
    by (simp add: model_defs mixed_case_source_def)
  have "length (map nt_name (notification_types d')) = 2"
    unfolding m r by simp
  then have "card ((\<lambda>n. lower (n_type n)) ` set (src_notifications mixed_case_source)) = 2"
    using l by simp
  then show ?thesis
    using h m r by simp
qed

section \<open>The notifications that are migrated\<close>

lemma map_of_map_set: "map_of (map_set m k v) = (map_of m)(k \<mapsto> v)"
  by (induction m k v rule: map_set.induct) auto

lemma set_message_id_Inr:
  assumes "set_message_id outgoing ident = Inr outgoing'"
  shows "\<exists>m message. outgoing = Some m \<and> map_of m ''message'' = Some (JObject message) \<and>
           outgoing' = map_set m ''message'' (JObject (map_set message ''id'' (JString ident)))"
  using assms
  by (auto simp: set_message_id_def map_get_def split: option.splits json.splits)

lemma outgoing_json_Some:
  assumes "outgoing_json js r = Some out"
  shows "\<exists>m message.
           Unmarshal js (r_message r) = Inr (Some m) \<and>
           map_of m ''message'' = Some (JObject message) \<and>
           Marshal js (map_set m ''message''
                         (JObject (map_set message ''id'' (JString (r_id r))))) = Inr out"
  using assms
  by (auto simp: outgoing_json_def split: sum.splits dest!: set_message_id_Inr)

lemma select_notifications_set:
  "set (select_notifications s) =
   {join_row n u | n u. n \<in> set (src_notifications s) \<and> u \<in> set (src_users s) \<and>
                        n_user_id n = u_id u}"
  by (auto simp: select_notifications_def)

lemma select_notifications_sorted:
  "sorted (map r_timeCreated (select_notifications s))"
  by (simp add: select_notifications_def)

lemma migrateNotifications_trace:
  assumes "migrateNotifications js s d = (res, d')"
  shows "(d' = d \<and> res \<noteq> Success) \<or>
         (\<exists>tm um ps k.
            getNotificationTypeIDMap d = Inr tm \<and> getUserIDMap d = Inr um \<and>
            notifications d = [] \<and>
            map fst ps = take (length ps) (select_notifications s) \<and>
            (\<forall>p\<in>set ps. outgoing_json js (fst p) = Some (snd p)) \<and>
            executed d' = executed d @ map (issued tm um) ps \<and>
            notifications d' = map (inserted tm um) (take k ps) \<and>
            (res = Success \<longrightarrow> length ps = length (select_notifications s) \<and> k = length ps) \<and>
            users d' = users d \<and> notification_types d' = notification_types d)"
proof -
  from migrateNotifications_cases [OF assms]
  consider (early) "d' = d" "res \<noteq> Success"
    | (loop) tm um rows where
        "validateDestinationNotificationsTable d = None"
        "getNotificationTypeIDMap d = Inr tm" "getUserIDMap d = Inr um"
        "src_Query s sourceQuery (select_notifications s) = Inr rows"
        "insert_notifications js tm um notifications_base rows d = (res, d')"
    by auto
  then show ?thesis
  proof cases
    case early
    then show ?thesis by simp
  next
    case loop
    from insert_notifications_trace [OF loop(5)] obtain ps rest k where
      tr: "rows = map (\<lambda>p. Inr (fst p)) ps @ rest"
        "\<forall>p\<in>set ps. outgoing_json js (fst p) = Some (snd p)"
        "executed d' = executed d @ map (issued tm um) ps"
        "notifications d' = notifications d @ map (inserted tm um) (take k ps)"
        "res = Success \<longrightarrow> rest = [] \<and> k = length ps"
        "users d' = users d" "notification_types d' = notification_types d"
      by blast
    have empty: "notifications d = []"
      using loop(1) by (simp add: validate_notifications_None)
    from loop(4) have sc: "scanned (src_scan_err s sourceQuery) (select_notifications s) = rows"
      by (simp add: src_Query_def split: option.splits)
    have rows: "rows = map Inr (map fst ps) @ rest"
      using tr(1) by (simp add: comp_def)
    from scanned_prefix [of "src_scan_err s sourceQuery" "select_notifications s" "map fst ps" rest]
    have pre: "map fst ps = take (length ps) (select_notifications s)"
      using sc rows by simp
    have len: "res = Success \<longrightarrow> length ps = length (select_notifications s)"
    proof
      assume "res = Success"
      with tr(5) rows have "rows = map Inr (map fst ps)" by simp
      with sc have "map fst ps = select_notifications s"
        using scanned_all_Inr [of "src_scan_err s sourceQuery" "select_notifications s" "map fst ps"]
        by simp
      then have "length (map fst ps) = length (select_notifications s)" by simp
      then show "length ps = length (select_notifications s)" by simp
    qed
    show ?thesis
      using loop(2,3) empty pre tr(2,3,4,5,6,7) len by (intro disjI2 exI [of _ tm] exI [of _ um] exI [of _ ps] exI [of _ k]) simp
  qed
qed


lemma statement_rows_issued: "statement_rows (issued tm um p) = [inserted tm um p]"
  by (simp add: statement_rows_def issued_def inserted_def notification_of_values_row)

lemma concat_statement_rows:
  "concat (map statement_rows (map (issued tm um) ps)) = map (inserted tm um) ps"
  by (induction ps) (simp_all add: statement_rows_issued)

lemma inserted_fields:
  "dn_id (inserted tm um p) = r_id (fst p)"
  "dn_time_created (inserted tm um p) = r_timeCreated (fst p)"
  "dn_incoming_json (inserted tm um p) = r_message (fst p)"
  "dn_outgoing_json (inserted tm um p) = snd p"
  "dn_notification_type_id (inserted tm um p) = string_map_get tm (r_notificationType (fst p))"
  "dn_user_id (inserted tm um p) = string_map_get um (r_username (fst p))"
  by (simp_all add: inserted_def notification_of_row_def)

lemma migrateNotifications_Success:
  assumes "migrateNotifications js s d = (Success, d')"
  shows "\<exists>tm um ps.
           getNotificationTypeIDMap d = Inr tm \<and> getUserIDMap d = Inr um \<and>
           notifications d = [] \<and>
           map fst ps = select_notifications s \<and>
           (\<forall>p\<in>set ps. outgoing_json js (fst p) = Some (snd p)) \<and>
           executed d' = executed d @ map (issued tm um) ps \<and>
           notifications d' = map (inserted tm um) ps \<and>
           users d' = users d \<and> notification_types d' = notification_types d"
proof -
  from migrateNotifications_trace [OF assms] obtain tm um ps k where
    tr: "getNotificationTypeIDMap d = Inr tm" "getUserIDMap d = Inr um"
      "notifications d = []"
      "map fst ps = take (length ps) (select_notifications s)"
      "\<forall>p\<in>set ps. outgoing_json js (fst p) = Some (snd p)"
      "executed d' = executed d @ map (issued tm um) ps"
      "notifications d' = map (inserted tm um) (take k ps)"
      "length ps = length (select_notifications s)" "k = length ps"
      "users d' = users d" "notification_types d' = notification_types d"
    by blast
  from tr(4,8) have "map fst ps = select_notifications s" by simp
  moreover from tr(7,9) have "notifications d' = map (inserted tm um) ps" by simp
  ultimately show ?thesis using tr(1,2,3,5,6,10,11) by blast
qed

text \<open>
  Claim C6. The statements that \<open>migrateNotifications\<close> passes to \<open>Exec\<close> each insert
  into \<open>notifications\<close> and carry exactly one row. Read in the order in which they are
  issued, their rows carry the identities and creation times of an initial segment of
  the source result set, which is ordered by creation time: the creation times of the
  issued rows are in non-decreasing order.
\<close>

theorem migrateNotifications_statement_order:
  assumes "migrateNotifications js s d = (res, d')"
  shows "\<exists>new. executed d' = executed d @ new \<and>
           (\<forall>st\<in>set new. Into st = ''notifications'' \<and> length (Values st) = 1 \<and>
                          length (statement_rows st) = 1) \<and>
           map dn_time_created (concat (map statement_rows new)) =
             take (length new) (map r_timeCreated (select_notifications s)) \<and>
           map dn_id (concat (map statement_rows new)) =
             take (length new) (map r_id (select_notifications s)) \<and>
           sorted (map dn_time_created (concat (map statement_rows new)))"
proof -
  from migrateNotifications_trace [OF assms]
  consider (early) "d' = d"
    | (loop) tm um ps where
        "map fst ps = take (length ps) (select_notifications s)"
        "executed d' = executed d @ map (issued tm um) ps"
    by blast
  then show ?thesis
  proof cases
    case early
    then show ?thesis by (intro exI [of _ "[]"]) simp
  next
    case loop
    let ?new = "map (issued tm um) ps"
    have one: "\<forall>st\<in>set ?new. Into st = ''notifications'' \<and> length (Values st) = 1 \<and>
                 length (statement_rows st) = 1"
      by (auto simp: statement_rows_issued) (simp_all add: issued_def notifications_base_def)
    have "map dn_time_created (concat (map statement_rows ?new)) =
            map r_timeCreated (map fst ps)"
      unfolding concat_statement_rows by (simp add: inserted_fields)
    then have times: "map dn_time_created (concat (map statement_rows ?new)) =
            take (length ?new) (map r_timeCreated (select_notifications s))"
      by (simp add: loop(1) take_map)
    have "map dn_id (concat (map statement_rows ?new)) = map r_id (map fst ps)"
      unfolding concat_statement_rows by (simp add: inserted_fields)
    then have ids: "map dn_id (concat (map statement_rows ?new)) =
            take (length ?new) (map r_id (select_notifications s))"
      by (simp add: loop(1) take_map)
    have "sorted (take (length ?new) (map r_timeCreated (select_notifications s)))"
      using select_notifications_sorted [of s] by (rule sorted_wrt_take)
    then have "sorted (map dn_time_created (concat (map statement_rows ?new)))"
      using times by simp
    with loop(2) one times ids show ?thesis by (intro exI [of _ ?new]) simp
  qed
qed


theorem migrateNotifications_statement_order_witness:
  "fst (migrateNotifications example_json two_notifications_source
          (prepared_dest two_notifications_source)) = Success \<and>
   map dn_id (concat (map statement_rows (drop 2 (executed (snd
     (migrateNotifications example_json two_notifications_source
        (prepared_dest two_notifications_source))))))) = [''def-456'', ''abc-123''] \<and>
   map dn_time_created (concat (map statement_rows (drop 2 (executed (snd
     (migrateNotifications example_json two_notifications_source
        (prepared_dest two_notifications_source))))))) = [3, 5] \<and>
   sorted (map dn_time_created (concat (map statement_rows (drop 2 (executed (snd
     (migrateNotifications example_json two_notifications_source
        (prepared_dest two_notifications_source))))))))"
proof -
  let ?d = "prepared_dest two_notifications_source"
  let ?r = "migrateNotifications example_json two_notifications_source ?d"
  have h: "?r = (fst ?r, snd ?r)" by simp
  from migrateNotifications_statement_order [OF h] obtain new where
    new: "executed (snd ?r) = executed ?d @ new"
      "sorted (map dn_time_created (concat (map statement_rows new)))"
    by blast
  have "length (executed ?d) = 2"
    by (simp add: model_defs)
  with new(1) have "new = drop 2 (executed (snd ?r))" by simp
  with new(2) have "sorted (map dn_time_created (concat (map statement_rows
      (drop 2 (executed (snd ?r))))))"
    by simp
  moreover have "fst ?r = Success"
    by (simp add: model_defs)
  moreover have "map dn_id (concat (map statement_rows (drop 2 (executed (snd ?r))))) =
      [''def-456'', ''abc-123'']"
    by (simp add: model_defs statement_rows_def)
  moreover have "map dn_time_created (concat (map statement_rows
      (drop 2 (executed (snd ?r))))) = [3, 5]"
    by (simp add: model_defs statement_rows_def)
  ultimately show ?thesis by blast
qed

text \<open>
  Claim C1, as amended. Every row that \<open>migrateNotifications\<close> adds to \<open>notifications\<close>
  comes from a source notification: it has that notification's identity, its incoming
  payload is the source message unchanged, the source message decodes to a map with a
  \<open>message\<close> entry that is itself a map, and its outgoing payload is the encoding of that
  map with the \<open>id\<close> entry of \<open>message\<close> set to the identity. Every other entry of the
  map and of \<open>message\<close> is as decoded; an \<open>id\<close> entry that \<open>message\<close> already had is
  replaced.
\<close>

theorem migrateNotifications_payloads:
  assumes "migrateNotifications js s d = (res, d')"
  shows "\<exists>new. notifications d' = notifications d @ new \<and>
           (\<forall>x\<in>set new. \<exists>n\<in>set (src_notifications s).
              dn_id x = n_uuid n \<and> dn_incoming_json x = n_message n \<and>
              (\<exists>m message out message'.
                 Unmarshal js (n_message n) = Inr (Some m) \<and>
                 map_of m ''message'' = Some (JObject message) \<and>
                 Marshal js out = Inr (dn_outgoing_json x) \<and>
                 map_of out = (map_of m)(''message'' \<mapsto> JObject message') \<and>
                 map_of message' = (map_of message)(''id'' \<mapsto> JString (n_uuid n))))"
proof -
  from migrateNotifications_trace [OF assms]
  consider (early) "d' = d"
    | (loop) tm um ps k where
        "notifications d = []"
        "map fst ps = take (length ps) (select_notifications s)"
        "\<forall>p\<in>set ps. outgoing_json js (fst p) = Some (snd p)"
        "notifications d' = map (inserted tm um) (take k ps)"
    by blast
  then show ?thesis
  proof cases
    case early
    then show ?thesis by (intro exI [of _ "[]"]) simp
  next
    case loop
    let ?new = "map (inserted tm um) (take k ps)"
    have "\<exists>n\<in>set (src_notifications s).
              dn_id x = n_uuid n \<and> dn_incoming_json x = n_message n \<and>
              (\<exists>m message out message'.
                 Unmarshal js (n_message n) = Inr (Some m) \<and>
                 map_of m ''message'' = Some (JObject message) \<and>
                 Marshal js out = Inr (dn_outgoing_json x) \<and>
                 map_of out = (map_of m)(''message'' \<mapsto> JObject message') \<and>
                 map_of message' = (map_of message)(''id'' \<mapsto> JString (n_uuid n)))"
      if "x \<in> set ?new" for x
    proof -
      from that obtain p where p: "p \<in> set ps" and x: "x = inserted tm um p"
        by (auto dest: in_set_takeD)
      from p have "fst p \<in> set (map fst ps)" by simp
      then have "fst p \<in> set (select_notifications s)"
        unfolding loop(2) by (rule in_set_takeD)
      then obtain n u where n: "n \<in> set (src_notifications s)" and r: "fst p = join_row n u"
        by (auto simp: select_notifications_set)
      from loop(3) p have "outgoing_json js (fst p) = Some (snd p)" by blast
      from outgoing_json_Some [OF this] obtain m message where
        o: "Unmarshal js (r_message (fst p)) = Inr (Some m)"
          "map_of m ''message'' = Some (JObject message)"
          "Marshal js (map_set m ''message''
             (JObject (map_set message ''id'' (JString (r_id (fst p)))))) = Inr (snd p)"
        by blast
      have f: "r_id (fst p) = n_uuid n" "r_message (fst p) = n_message n"
        by (simp_all add: r join_row_def)
      show ?thesis
      proof (intro bexI [of _ n] conjI exI)
        show "dn_id x = n_uuid n" by (simp add: x inserted_fields f)
        show "dn_incoming_json x = n_message n" by (simp add: x inserted_fields f)
        show "Unmarshal js (n_message n) = Inr (Some m)" using o(1) f by simp
        show "map_of m ''message'' = Some (JObject message)" by (rule o(2))
        show "Marshal js (map_set m ''message''
                (JObject (map_set message ''id'' (JString (n_uuid n))))) =
              Inr (dn_outgoing_json x)"
          using o(3) f by (simp add: x inserted_fields)
        show "map_of (map_set m ''message''
                (JObject (map_set message ''id'' (JString (n_uuid n))))) =
              (map_of m)(''message'' \<mapsto> JObject (map_set message ''id'' (JString (n_uuid n))))"
          by (rule map_of_map_set)
        show "map_of (map_set message ''id'' (JString (n_uuid n))) =
              (map_of message)(''id'' \<mapsto> JString (n_uuid n))"
          by (rule map_of_map_set)
        show "n \<in> set (src_notifications s)" by (rule n)
      qed
    qed
    with loop(1,4) show ?thesis by (intro exI [of _ ?new]) simp
  qed
qed

theorem migrateNotifications_payloads_witness:
  "map dn_incoming_json (notifications (snd (migrateNotifications example_json example_source
      (prepared_dest example_source)))) = [hi_payload] \<and>
   map dn_outgoing_json (notifications (snd (migrateNotifications example_json example_source
      (prepared_dest example_source)))) = [hi_outgoing] \<and>
   (\<exists>m message out message'.
      Unmarshal example_json hi_payload = Inr (Some m) \<and>
      map_of m ''message'' = Some (JObject message) \<and>
      Marshal example_json out = Inr hi_outgoing \<and>
      map_of out = (map_of m)(''message'' \<mapsto> JObject message') \<and>
      map_of message' = (map_of message)(''id'' \<mapsto> JString ''abc-123''))"
proof -
  let ?d = "prepared_dest example_source"
  let ?r = "migrateNotifications example_json example_source ?d"
  have h: "?r = (fst ?r, snd ?r)" by simp
  have e: "notifications ?d = []"
    by (simp add: model_defs)
  obtain x where x: "notifications (snd ?r) = [x]"
    "dn_incoming_json x = hi_payload" "dn_outgoing_json x = hi_outgoing"
    by (simp add: model_defs)
  have src: "src_notifications example_source = [hi_notification]"
    "n_message hi_notification = hi_payload" "n_uuid hi_notification = ''abc-123''"
    by (simp_all add: example_source_def hi_notification_def)
  from migrateNotifications_payloads [OF h] e x(1)
  have "\<exists>n\<in>set (src_notifications example_source).
         dn_id x = n_uuid n \<and> dn_incoming_json x = n_message n \<and>
         (\<exists>m message out message'.
            Unmarshal example_json (n_message n) = Inr (Some m) \<and>
            map_of m ''message'' = Some (JObject message) \<and>
            Marshal example_json out = Inr (dn_outgoing_json x) \<and>
            map_of out = (map_of m)(''message'' \<mapsto> JObject message') \<and>
            map_of message' = (map_of message)(''id'' \<mapsto> JString (n_uuid n)))"
    by simp
  then have "\<exists>m message out message'.
      Unmarshal example_json hi_payload = Inr (Some m) \<and>
      map_of m ''message'' = Some (JObject message) \<and>
      Marshal example_json out = Inr hi_outgoing \<and>
      map_of out = (map_of m)(''message'' \<mapsto> JObject message') \<and>
      map_of message' = (map_of message)(''id'' \<mapsto> JString ''abc-123'')"
    by (simp add: src x(2,3))
  then show ?thesis using x by simp
qed

text \<open>
  Claim C1 as stated fails: when the \<open>message\<close> of the incoming payload already has an
  \<open>id\<close>, no field is added. The field is replaced, and the outgoing payload has as many
  fields as the incoming one.
\<close>

theorem migrateNotifications_id_replaced:
  "Unmarshal example_json old_id_payload =
     Inr (Some [(''message'', JObject [(''id'', JString ''old'')])]) \<and>
   set_message_id (Some [(''message'', JObject [(''id'', JString ''old'')])]) ''abc-123'' =
     Inr [(''message'', JObject [(''id'', JString ''abc-123'')])] \<and>
   Marshal example_json [(''message'', JObject [(''id'', JString ''abc-123'')])] =
     Inr old_id_outgoing \<and>
   fst (migrateNotifications example_json old_id_source (prepared_dest old_id_source)) =
     Success \<and>
   map dn_incoming_json (notifications (snd (migrateNotifications example_json old_id_source
      (prepared_dest old_id_source)))) = [old_id_payload] \<and>
   map dn_outgoing_json (notifications (snd (migrateNotifications example_json old_id_source
      (prepared_dest old_id_source)))) = [old_id_outgoing]"
  by (simp add: model_defs)

text \<open>
  Claim C3, as amended. Every row that \<open>migrateNotifications\<close> adds to \<open>notifications\<close>
  comes from a row of the source result set and has as \<open>notification_type_id\<close> and
  \<open>user_id\<close> what the two dictionaries hold for that row's lower-cased type and username,
  and the empty string for a key that a dictionary does not hold.
\<close>

theorem migrateNotifications_foreign_keys:
  assumes "migrateNotifications js s d = (res, d')"
    and "getNotificationTypeIDMap d = Inr tm" and "getUserIDMap d = Inr um"
  shows "\<exists>new. notifications d' = notifications d @ new \<and>
           (\<forall>x\<in>set new. \<exists>r\<in>set (select_notifications s).
              dn_id x = r_id r \<and>
              dn_notification_type_id x =
                (case tm (r_notificationType r) of None \<Rightarrow> [] | Some i \<Rightarrow> i) \<and>
              dn_user_id x = (case um (r_username r) of None \<Rightarrow> [] | Some i \<Rightarrow> i))"
proof -
  from migrateNotifications_trace [OF assms(1)] assms(2,3)
  consider (early) "d' = d"
    | (loop) ps k where
        "notifications d = []"
        "map fst ps = take (length ps) (select_notifications s)"
        "notifications d' = map (inserted tm um) (take k ps)"
    by auto
  then show ?thesis
  proof cases
    case early
    then show ?thesis by (intro exI [of _ "[]"]) simp
  next
    case loop
    let ?new = "map (inserted tm um) (take k ps)"
    have "\<exists>r\<in>set (select_notifications s).
              dn_id x = r_id r \<and>
              dn_notification_type_id x =
                (case tm (r_notificationType r) of None \<Rightarrow> [] | Some i \<Rightarrow> i) \<and>
              dn_user_id x = (case um (r_username r) of None \<Rightarrow> [] | Some i \<Rightarrow> i)"
      if "x \<in> set ?new" for x
    proof -
      from that obtain p where p: "p \<in> set ps" and x: "x = inserted tm um p"
        by (auto dest: in_set_takeD)
      from p have "fst p \<in> set (map fst ps)" by simp
      then have "fst p \<in> set (select_notifications s)"
        unfolding loop(2) by (rule in_set_takeD)
      then show ?thesis
        by (intro bexI [of _ "fst p"]) (simp_all add: x inserted_fields string_map_get_def)
    qed
    with loop(1,3) show ?thesis by (intro exI [of _ ?new]) simp
  qed
qed

theorem migrateNotifications_foreign_keys_witness:
  "getNotificationTypeIDMap (prepared_dest example_source) = Inr [''info'' \<mapsto> ''dst-i''] \<and>
   getUserIDMap (prepared_dest example_source) = Inr [''alice'' \<mapsto> ''dst-''] \<and>
   map dn_notification_type_id (notifications (snd (migrateNotifications example_json
      example_source (prepared_dest example_source)))) = [''dst-i''] \<and>
   map dn_user_id (notifications (snd (migrateNotifications example_json
      example_source (prepared_dest example_source)))) = [''dst-'']"
proof -
  let ?d = "prepared_dest example_source"
  let ?r = "migrateNotifications example_json example_source ?d"
  have h: "?r = (fst ?r, snd ?r)" by simp
  have e: "notifications ?d = []"
    by (simp add: model_defs)
  have tm: "getNotificationTypeIDMap ?d = Inr [''info'' \<mapsto> ''dst-i'']"
    by (simp add: model_defs)
  have um: "getUserIDMap ?d = Inr [''alice'' \<mapsto> ''dst-'']"
    by (simp add: model_defs)
  obtain x where x: "notifications (snd ?r) = [x]"
    by (simp add: model_defs)
  obtain r where r: "select_notifications example_source = [r]"
    "r_notificationType r = ''info''" "r_username r = ''alice''"
    by (simp add: model_defs)
  from migrateNotifications_foreign_keys [OF h tm um] e x r(1)
  have "dn_notification_type_id x =
           (case [''info'' \<mapsto> ''dst-i''] (r_notificationType r) of None \<Rightarrow> [] | Some i \<Rightarrow> i) \<and>
         dn_user_id x = (case [''alice'' \<mapsto> ''dst-''] (r_username r) of None \<Rightarrow> [] | Some i \<Rightarrow> i)"
    by simp
  then have "dn_notification_type_id x = ''dst-i'' \<and> dn_user_id x = ''dst-''"
    by (simp add: r(2,3))
  then show ?thesis using tm um x by simp
qed

text \<open>
  Claim C3 as stated fails: on a destination whose \<open>users\<close> and \<open>notification_types\<close>
  tables are empty both dictionaries are empty, no key of the example notification is
  resolved, and \<open>migrateNotifications\<close> succeeds and inserts the notification with
  empty foreign keys.
\<close>

theorem migrateNotifications_empty_foreign_keys:
  "getUserIDMap empty_dest = Inr Map.empty \<and>
   getNotificationTypeIDMap empty_dest = Inr Map.empty \<and>
   fst (migrateNotifications example_json example_source empty_dest) = Success \<and>
   map dn_id (notifications (snd (migrateNotifications example_json example_source
      empty_dest))) = [''abc-123''] \<and>
   map dn_notification_type_id (notifications (snd (migrateNotifications example_json
      example_source empty_dest))) = [[]] \<and>
   map dn_user_id (notifications (snd (migrateNotifications example_json example_source
      empty_dest))) = [[]]"
  by (simp add: model_defs)

lemma filter_key_length:
  "distinct (map u_id us) \<Longrightarrow>
   length (filter (\<lambda>u. k = u_id u) us) = (if k \<in> u_id ` set us then 1 else 0)"
  by (induction us) auto

lemma join_ids:
  assumes "distinct (map u_id us)"
  shows "map r_id (concat (map (\<lambda>n. map (join_row n) (filter (\<lambda>u. n_user_id n = u_id u) us)) ns)) =
         map n_uuid (filter (\<lambda>n. n_user_id n \<in> u_id ` set us) ns)"
proof (induction ns)
  case Nil
  show ?case by simp
next
  case (Cons n ns)
  have "map r_id (map (join_row n) (filter (\<lambda>u. n_user_id n = u_id u) us)) =
          replicate (length (filter (\<lambda>u. n_user_id n = u_id u) us)) (n_uuid n)"
    by (simp add: join_row_def comp_def map_replicate_const)
  also have "\<dots> = (if n_user_id n \<in> u_id ` set us then [n_uuid n] else [])"
    by (simp add: filter_key_length [OF assms])
  finally show ?case using Cons.IH by simp
qed

text \<open>
  Claim C10. When \<open>migrateNotifications\<close> succeeds and the identities of the source users
  are pairwise different, the destination table \<open>notifications\<close> was empty before and
  holds afterwards as many rows as there are source notifications whose \<open>user_id\<close> is the
  identity of a source user, and the identities of its rows are, with multiplicity, the
  identities of those source notifications. A source notification without a source user
  contributes no row and no error.
\<close>

theorem migrateNotifications_inner_join:
  assumes "migrateNotifications js s d = (Success, d')"
    and "distinct (map u_id (src_users s))"
  shows "notifications d = [] \<and>
         length (notifications d') =
           length (filter (\<lambda>n. n_user_id n \<in> u_id ` set (src_users s)) (src_notifications s)) \<and>
         mset (map dn_id (notifications d')) =
           mset (map n_uuid
                  (filter (\<lambda>n. n_user_id n \<in> u_id ` set (src_users s)) (src_notifications s)))"
proof -
  from migrateNotifications_Success [OF assms(1)] obtain tm um ps where
    tr: "notifications d = []" "map fst ps = select_notifications s"
      "notifications d' = map (inserted tm um) ps"
    by blast
  have "map dn_id (notifications d') = map r_id (map fst ps)"
    by (simp add: tr(3) inserted_fields)
  then have ids: "map dn_id (notifications d') = map r_id (select_notifications s)"
    by (simp only: tr(2))
  have "mset (map r_id (select_notifications s)) =
          mset (map n_uuid
                  (filter (\<lambda>n. n_user_id n \<in> u_id ` set (src_users s)) (src_notifications s)))"
    unfolding select_notifications_def join_ids [OF assms(2), symmetric]
    by simp
  with ids have m: "mset (map dn_id (notifications d')) =
          mset (map n_uuid
                  (filter (\<lambda>n. n_user_id n \<in> u_id ` set (src_users s)) (src_notifications s)))"
    by simp
  have "length (notifications d') = length (map r_id (select_notifications s))"
    using arg_cong [OF ids, of length] by simp
  also have "\<dots> = length (map r_id (concat (map (\<lambda>n. map (join_row n)
      (filter (\<lambda>u. n_user_id n = u_id u) (src_users s))) (src_notifications s))))"
    by (simp add: select_notifications_def)
  also have "\<dots> = length (map n_uuid
      (filter (\<lambda>n. n_user_id n \<in> u_id ` set (src_users s)) (src_notifications s)))"
    by (simp only: join_ids [OF assms(2)])
  finally have "length (notifications d') =
      length (filter (\<lambda>n. n_user_id n \<in> u_id ` set (src_users s)) (src_notifications s))"
    by simp
  with tr(1) m show ?thesis by simp
qed

theorem migrateNotifications_inner_join_witness:
  "length (src_notifications orphan_source) = 2 \<and>
   fst (migrateNotifications example_json orphan_source (prepared_dest orphan_source)) =
     Success \<and>
   length (notifications (snd (migrateNotifications example_json orphan_source
      (prepared_dest orphan_source)))) = 1 \<and>
   mset (map dn_id (notifications (snd (migrateNotifications example_json orphan_source
      (prepared_dest orphan_source))))) = {#''abc-123''#}"
proof -
  let ?d = "prepared_dest orphan_source"
  let ?r = "migrateNotifications example_json orphan_source ?d"
  have s: "fst ?r = Success"
    by (simp add: model_defs)
  then have h: "?r = (Success, snd ?r)" by (metis prod.collapse)
  have k: "distinct (map u_id (src_users orphan_source))"
    by (simp add: model_defs)
  have f: "filter (\<lambda>n. n_user_id n \<in> u_id ` set (src_users orphan_source))
             (src_notifications orphan_source) = [hi_notification]"
    by (simp add: model_defs)
  have "length (src_notifications orphan_source) = 2"
    by (simp add: model_defs)
  then show ?thesis
    using migrateNotifications_inner_join [OF h k] s unfolding f
    by (simp add: hi_notification_def)
qed

section \<open>The references of the migrated notifications\<close>

lemma build_map_Inr:
  "build_map m rows = Inr m' \<Longrightarrow>
   \<exists>ps. rows = map Inr ps \<and>
        (\<forall>k v. m' k = Some v \<longrightarrow> m k = Some v \<or> (v, k) \<in> set ps) \<and>
        (\<forall>k. k \<in> snd ` set ps \<or> m k \<noteq> None \<longrightarrow> m' k \<noteq> None)"
proof (induction m rows rule: build_map.induct)
  case (1 result)
  then show ?case by simp
next
  case (2 result err rows)
  then show ?case by simp
next
  case (3 result ident name rows)
  then have "build_map (result(name \<mapsto> ident)) rows = Inr m'" by simp
  from 3(1) [OF this] obtain ps where
    ps: "rows = map Inr ps"
      "\<forall>k v. m' k = Some v \<longrightarrow> (result(name \<mapsto> ident)) k = Some v \<or> (v, k) \<in> set ps"
      "\<forall>k. k \<in> snd ` set ps \<or> (result(name \<mapsto> ident)) k \<noteq> None \<longrightarrow> m' k \<noteq> None"
    by blast
  show ?case
  proof (intro exI [of _ "(ident, name) # ps"] conjI allI impI)
    show "Inr (ident, name) # rows = map Inr ((ident, name) # ps)" by (simp add: ps(1))
  next
    fix k v assume a: "m' k = Some v"
    show "result k = Some v \<or> (v, k) \<in> set ((ident, name) # ps)"
    proof (cases "k = name")
      case True
      from ps(2) a have "(result(name \<mapsto> ident)) k = Some v \<or> (v, k) \<in> set ps" by blast
      with True have "ident = v \<or> (v, k) \<in> set ps" by simp
      with True show ?thesis by auto
    next
      case False
      from ps(2) a have "(result(name \<mapsto> ident)) k = Some v \<or> (v, k) \<in> set ps" by blast
      with False show ?thesis by simp
    qed
  next
    fix k assume a: "k \<in> snd ` set ((ident, name) # ps) \<or> result k \<noteq> None"
    have "k \<in> snd ` set ps \<or> (result(name \<mapsto> ident)) k \<noteq> None"
    proof (cases "k = name")
      case True
      then show ?thesis by simp
    next
      case False
      with a show ?thesis by simp
    qed
    with ps(3) show "m' k \<noteq> None" by blast
  qed
qed



lemma build_map_scanned:
  assumes "build_map Map.empty (scanned se xs) = Inr m"
  shows "(\<forall>k v. m k = Some v \<longrightarrow> (v, k) \<in> set xs) \<and> (\<forall>k\<in>snd ` set xs. m k \<noteq> None)"
proof -
  from build_map_Inr [OF assms]
  have "\<exists>ps. scanned se xs = map Inr ps \<and>
          (\<forall>k v. m k = Some v \<longrightarrow> (v, k) \<in> set ps) \<and>
          (\<forall>k. k \<in> snd ` set ps \<longrightarrow> m k \<noteq> None)"
    by simp
  then obtain ps where
    ps: "scanned se xs = map Inr ps"
      "\<forall>k v. m k = Some v \<longrightarrow> (v, k) \<in> set ps"
      "\<forall>k. k \<in> snd ` set ps \<longrightarrow> m k \<noteq> None"
    by (elim exE conjE)
  from scanned_all_Inr [OF ps(1)] have eq: "ps = xs" .
  have a: "\<forall>k v. m k = Some v \<longrightarrow> (v, k) \<in> set xs"
    using ps(2) unfolding eq .
  have b: "\<forall>k\<in>snd ` set xs. m k \<noteq> None"
  proof
    fix k assume k: "k \<in> snd ` set xs"
    from ps(3) have "k \<in> snd ` set xs \<longrightarrow> m k \<noteq> None"
      unfolding eq by (rule spec)
    from this k show "m k \<noteq> None" by (rule mp)
  qed
  from a b show ?thesis by (rule conjI)
qed

lemma getUserIDMap_Inr:
  assumes "getUserIDMap d = Inr um"
  shows "um k = Some v \<Longrightarrow> \<exists>u\<in>set (users d). du_id u = v \<and> du_username u = k"
    and "u \<in> set (users d) \<Longrightarrow> um (du_username u) \<noteq> None"
proof -
  let ?rows = "map (\<lambda>u. (du_id u, du_username u)) (users d)"
  from assms have
    "build_map Map.empty (scanned (dst_scan_err d user_ids_query) ?rows) = Inr um"
    by (simp add: getUserIDMap_def dst_Query_def Let_def split: option.splits sum.splits)
  from build_map_scanned [OF this]
  have a: "\<forall>k v. um k = Some v \<longrightarrow> (v, k) \<in> set ?rows"
    and b: "\<forall>k\<in>snd ` set ?rows. um k \<noteq> None"
    by (rule conjunct1, rule conjunct2)
  show "\<exists>u\<in>set (users d). du_id u = v \<and> du_username u = k" if "um k = Some v"
  proof -
    from a [rule_format, OF that] have "(v, k) \<in> set ?rows" .
    then show ?thesis by auto
  qed
  show "um (du_username u) \<noteq> None" if "u \<in> set (users d)"
  proof -
    from that have "du_username u \<in> snd ` set ?rows" by force
    with b show ?thesis by (rule bspec)
  qed
qed

lemma getNotificationTypeIDMap_Inr:
  assumes "getNotificationTypeIDMap d = Inr tm"
  shows "tm k = Some v \<Longrightarrow> \<exists>t\<in>set (notification_types d). nt_id t = v \<and> nt_name t = k"
    and "t \<in> set (notification_types d) \<Longrightarrow> tm (nt_name t) \<noteq> None"
proof -
  let ?rows = "map (\<lambda>t. (nt_id t, nt_name t)) (notification_types d)"
  from assms have
    "build_map Map.empty (scanned (dst_scan_err d type_ids_query) ?rows) = Inr tm"
    by (simp add: getNotificationTypeIDMap_def dst_Query_def Let_def split: option.splits sum.splits)
  from build_map_scanned [OF this]
  have a: "\<forall>k v. tm k = Some v \<longrightarrow> (v, k) \<in> set ?rows"
    and b: "\<forall>k\<in>snd ` set ?rows. tm k \<noteq> None"
    by (rule conjunct1, rule conjunct2)
  show "\<exists>t\<in>set (notification_types d). nt_id t = v \<and> nt_name t = k" if "tm k = Some v"
  proof -
    from a [rule_format, OF that] have "(v, k) \<in> set ?rows" .
    then show ?thesis by auto
  qed
  show "tm (nt_name t) \<noteq> None" if "t \<in> set (notification_types d)"
  proof -
    from that have "nt_name t \<in> snd ` set ?rows" by force
    with b show ?thesis by (rule bspec)
  qed
qed

lemma runMigration_Success:
  assumes "runMigration js s d = (Success, d')"
  shows "\<exists>d1 d2. migrateUsers s d = (None, d1) \<and> migrateNotificationTypes s d1 = (None, d2) \<and>
           migrateNotifications js s d2 = (Success, d')"
  using assms
  by (auto simp: runMigration_def Let_def split: prod.splits option.splits outcome.splits)

text \<open>
  Claim C8. When \<open>runMigration\<close> succeeds, the three destination tables were empty at the
  start, so every row they hold was inserted by the run, and every notification in the
  destination comes from a row of the source result set and refers to a row of
  \<open>notification_types\<close> whose name is that row's lower-cased type and to a row of \<open>users\<close>
  whose username is that row's username.
\<close>

theorem runMigration_references:
  assumes "runMigration js s d = (Success, d')"
  shows "users d = [] \<and> notification_types d = [] \<and> notifications d = [] \<and>
         (\<forall>x\<in>set (notifications d'). \<exists>r\<in>set (select_notifications s).
            dn_id x = r_id r \<and>
            (\<exists>t\<in>set (notification_types d').
               nt_id t = dn_notification_type_id x \<and> nt_name t = r_notificationType r) \<and>
            (\<exists>u\<in>set (users d'). du_id u = dn_user_id x \<and> du_username u = r_username r))"
proof -
  from runMigration_Success [OF assms] obtain d1 d2 where
    st: "migrateUsers s d = (None, d1)" "migrateNotificationTypes s d1 = (None, d2)"
      "migrateNotifications js s d2 = (Success, d')"
    by blast
  note u = migrateUsers_success [OF st(1)]
  note t = migrateNotificationTypes_success [OF st(2)]
  from migrateNotifications_Success [OF st(3)] obtain tm um ps where
    n: "getNotificationTypeIDMap d2 = Inr tm" "getUserIDMap d2 = Inr um"
      "notifications d2 = []" "map fst ps = select_notifications s"
      "notifications d' = map (inserted tm um) ps"
      "users d' = users d2" "notification_types d' = notification_types d2"
    by blast
  have names: "map du_username (users d') = select_usernames s"
    using u(2) t(5) n(6) by simp
  have types: "map nt_name (notification_types d') = select_distinct_types s"
    using t(2) n(7) by simp
  have empty: "users d = []" "notification_types d = []" "notifications d = []"
    using u(1,5,6) t(1,6) n(3) by simp_all
  have ref: "\<exists>r\<in>set (select_notifications s).
            dn_id x = r_id r \<and>
            (\<exists>t\<in>set (notification_types d').
               nt_id t = dn_notification_type_id x \<and> nt_name t = r_notificationType r) \<and>
            (\<exists>u\<in>set (users d'). du_id u = dn_user_id x \<and> du_username u = r_username r)"
    if "x \<in> set (notifications d')" for x
  proof -
    from that n(5) obtain p where p: "p \<in> set ps" and x: "x = inserted tm um p" by auto
    let ?r = "fst p"
    from p have "?r \<in> set (map fst ps)" by simp
    then have r: "?r \<in> set (select_notifications s)" by (simp only: n(4))
    then obtain sn su where sn: "sn \<in> set (src_notifications s)"
      and su: "su \<in> set (src_users s)" and j: "?r = join_row sn su"
      by (auto simp: select_notifications_set)
    have "r_username ?r \<in> set (select_usernames s)"
      using su by (simp add: j join_row_def select_usernames_def)
    then have "r_username ?r \<in> set (map du_username (users d'))" by (simp only: names)
    then obtain u0 where "u0 \<in> set (users d2)" "du_username u0 = r_username ?r"
      using n(6) by auto
    with getUserIDMap_Inr(2) [OF n(2), of u0] obtain v where v: "um (r_username ?r) = Some v"
      by auto
    from getUserIDMap_Inr(1) [OF n(2) v] obtain u1 where
      u1: "u1 \<in> set (users d')" "du_id u1 = v" "du_username u1 = r_username ?r"
      using n(6) by auto
    have "r_notificationType ?r \<in> set (select_distinct_types s)"
      using sn by (simp add: j join_row_def select_distinct_types_def)
    then have "r_notificationType ?r \<in> set (map nt_name (notification_types d'))"
      by (simp only: types)
    then obtain t0 where "t0 \<in> set (notification_types d2)" "nt_name t0 = r_notificationType ?r"
      using n(7) by auto
    with getNotificationTypeIDMap_Inr(2) [OF n(1), of t0] obtain w where
      w: "tm (r_notificationType ?r) = Some w"
      by auto
    from getNotificationTypeIDMap_Inr(1) [OF n(1) w] obtain t1 where
      t1: "t1 \<in> set (notification_types d')" "nt_id t1 = w" "nt_name t1 = r_notificationType ?r"
      using n(7) by auto
    have k: "dn_user_id x = v" "dn_notification_type_id x = w" "dn_id x = r_id ?r"
      by (simp_all add: x inserted_fields string_map_get_def v w)
    have "\<exists>t\<in>set (notification_types d').
            nt_id t = dn_notification_type_id x \<and> nt_name t = r_notificationType ?r"
      using t1 k(2) by (intro bexI [of _ t1]) simp_all
    moreover have "\<exists>u\<in>set (users d'). du_id u = dn_user_id x \<and> du_username u = r_username ?r"
      using u1 k(1) by (intro bexI [of _ u1]) simp_all
    ultimately show ?thesis
      using r k(3) by (intro bexI [of _ ?r]) simp_all
  qed
  have "\<forall>x\<in>set (notifications d'). \<exists>r\<in>set (select_notifications s).
            dn_id x = r_id r \<and>
            (\<exists>t\<in>set (notification_types d').
               nt_id t = dn_notification_type_id x \<and> nt_name t = r_notificationType r) \<and>
            (\<exists>u\<in>set (users d'). du_id u = dn_user_id x \<and> du_username u = r_username r)"
    by (rule ballI) (rule ref)
  then show ?thesis
    by (rule conjI [OF empty(1) conjI [OF empty(2) conjI [OF empty(3)]]])
qed

theorem runMigration_references_witness:
  "fst (runMigration example_json example_source empty_dest) = Success \<and>
   map (\<lambda>u. (du_id u, du_username u))
     (users (snd (runMigration example_json example_source empty_dest))) =
     [(''dst-'', ''alice'')] \<and>
   map (\<lambda>t. (nt_id t, nt_name t))
     (notification_types (snd (runMigration example_json example_source empty_dest))) =
     [(''dst-i'', ''info'')] \<and>
   map (\<lambda>x. (dn_id x, dn_notification_type_id x, dn_user_id x))
     (notifications (snd (runMigration example_json example_source empty_dest))) =
     [(''abc-123'', ''dst-i'', ''dst-'')] \<and>
   map dn_outgoing_json
     (notifications (snd (runMigration example_json example_source empty_dest))) =
     [hi_outgoing]"
proof -
  let ?r = "runMigration example_json example_source empty_dest"
  have s: "fst ?r = Success" by (simp add: model_defs)
  then have h: "?r = (Success, snd ?r)" by (metis prod.collapse)
  have us: "map (\<lambda>u. (du_id u, du_username u)) (users (snd ?r)) = [(''dst-'', ''alice'')]"
    by (simp add: model_defs)
  have ts: "map (\<lambda>t. (nt_id t, nt_name t)) (notification_types (snd ?r)) =
      [(''dst-i'', ''info'')]"
    by (simp add: model_defs)
  obtain x where x: "notifications (snd ?r) = [x]" "dn_id x = ''abc-123''"
    "dn_outgoing_json x = hi_outgoing"
    by (simp add: model_defs)
  from us obtain u where u: "users (snd ?r) = [u]" "du_id u = ''dst-''" by auto
  from ts obtain t where t: "notification_types (snd ?r) = [t]" "nt_id t = ''dst-i''" by auto
  from runMigration_references [OF h] x(1) u(1) t(1)
  have "nt_id t = dn_notification_type_id x \<and> du_id u = dn_user_id x"
    by auto
  with u(2) t(2) have "dn_notification_type_id x = ''dst-i'' \<and> dn_user_id x = ''dst-''"
    by simp
  with s us ts x show ?thesis by simp
qed

section \<open>Sources without rows\<close>

text \<open>
  Claim C2. With no source users the user stage does not succeed, and with no source
  notifications the notification-type stage does not succeed: the loop adds no values,
  the statement builder refuses the statement, and the stage returns the builder's error,
  leaving the destination as it was. The notification stage, which builds one statement
  per row, succeeds on an empty result set. A source with users and without notifications
  therefore fails to migrate.
\<close>

theorem zero_rows_builder_error:
  "migrateUsers no_users_source empty_dest =
     (Some ''user migration failed: insert statements must have at least one set of values or select clause'',
      empty_dest) \<and>
   migrateNotificationTypes no_notifications_source empty_dest =
     (Some ''notification type migration failed: insert statements must have at least one set of values or select clause'',
      empty_dest) \<and>
   migrateNotifications example_json no_notifications_source empty_dest = (Success, empty_dest) \<and>
   fst (runMigration example_json no_notifications_source empty_dest) =
     Failure ''database migration failed: notification type migration failed: insert statements must have at least one set of values or select clause''"
  by (simp add: model_defs)


section \<open>Payloads that cannot be rewritten\<close>

lemma outgoing_json_undecodable:
  "Unmarshal js (r_message r) = Inl err \<Longrightarrow> outgoing_json js r = None"
  by (simp add: outgoing_json_def)


text \<open>
  Claim C4, as amended. When the loop of \<open>migrateNotifications\<close> reaches a notification
  whose payload the decoder rejects, it returns the decoder's error wrapped with
  \<open>notification migration failed\<close>, without changing the destination and without
  visiting the remaining rows; the error text is built from the decoder's error alone.
  A source that has such a notification in its result set is never migrated
  successfully.
\<close>

theorem migrateNotifications_undecodable:
  assumes "Unmarshal js (r_message r) = Inl err"
  shows "insert_notifications js tm um base (Inr r # rows) d =
           (Failure (''notification migration failed: '' @ err), d) \<and>
         (r \<in> set (select_notifications s) \<longrightarrow>
            fst (migrateNotifications js s d0) \<noteq> Success)"
proof
  show "insert_notifications js tm um base (Inr r # rows) d =
           (Failure (''notification migration failed: '' @ err), d)"
    using assms by (simp add: insert_notification_def Wrap_def Let_def)
  show "r \<in> set (select_notifications s) \<longrightarrow> fst (migrateNotifications js s d0) \<noteq> Success"
  proof (intro impI notI)
    assume r: "r \<in> set (select_notifications s)"
      and "fst (migrateNotifications js s d0) = Success"
    then have "migrateNotifications js s d0 = (Success, snd (migrateNotifications js s d0))"
      by (metis prod.collapse)
    from migrateNotifications_Success [OF this] obtain ps :: "(notification_row \<times> string) list"
      where ps: "map fst ps = select_notifications s"
        "\<forall>p\<in>set ps. outgoing_json js (fst p) = Some (snd p)"
      by (elim exE conjE)
    from r have "r \<in> set (map fst ps)" by (simp only: ps(1))
    then obtain p where "p \<in> set ps" "fst p = r" by auto
    with ps(2) have "outgoing_json js r = Some (snd p)" by auto
    with outgoing_json_undecodable [OF assms] show False by simp
  qed
qed

theorem migrateNotifications_undecodable_witness:
  "Unmarshal example_json ''{'' = Inl ''unexpected end of JSON input'' \<and>
   insert_notifications example_json Map.empty Map.empty notifications_base
     [Inr (join_row (hi_notification\<lparr>n_message := ''{''\<rparr>) alice)] empty_dest =
     (Failure ''notification migration failed: unexpected end of JSON input'', empty_dest) \<and>
   fst (migrateNotifications example_json truncated_source (prepared_dest truncated_source)) \<noteq>
     Success"
proof -
  let ?r = "join_row (hi_notification\<lparr>n_message := ''{''\<rparr>) alice"
  have u: "Unmarshal example_json (r_message ?r) = Inl ''unexpected end of JSON input''"
    by (simp add: model_defs)
  have m: "?r \<in> set (select_notifications truncated_source)"
    by (simp add: model_defs)
  have u': "Unmarshal example_json ''{'' = Inl ''unexpected end of JSON input''"
    by (simp add: model_defs)
  from migrateNotifications_undecodable [OF u, of Map.empty Map.empty notifications_base "[]"
      empty_dest truncated_source "prepared_dest truncated_source"] m u'
  show ?thesis by simp
qed


text \<open>
  Claim C4 as stated fails: the error returned for a payload that is not valid JSON does
  not name the notification. Two notifications with different identities and the same
  truncated payload yield the same error.
\<close>

theorem migrateNotifications_error_without_identity:
  "map n_uuid (src_notifications truncated_source) = [''abc-123''] \<and>
   migrateNotifications example_json truncated_source (prepared_dest truncated_source) =
     (Failure ''notification migration failed: unexpected end of JSON input'',
      prepared_dest truncated_source) \<and>
   map n_uuid (src_notifications truncated_other_source) = [''def-456''] \<and>
   migrateNotifications example_json truncated_other_source (prepared_dest truncated_other_source) =
     (Failure ''notification migration failed: unexpected end of JSON input'',
      prepared_dest truncated_other_source)"
  by (simp add: model_defs)


text \<open>
  A payload that decodes to a map without a \<open>message\<close> entry is outside the amended claim:
  the type assertion panics.
\<close>

lemma migrateNotifications_missing_message:
  "migrateNotifications example_json no_message_source (prepared_dest no_message_source) =
     (Panic ''interface conversion: interface {} is nil, not map[string]interface {}'',
      prepared_dest no_message_source)"
  by (simp add: model_defs)

section \<open>A destination that is not empty\<close>

lemma migrateUsers_nonempty:
  assumes "users d \<noteq> []"
  shows "\<exists>e. migrateUsers s d = (Some e, d)"
proof -
  from assms have "validateDestinationUsersTable d \<noteq> None"
    by (simp add: validate_users_None)
  then obtain e where "validateDestinationUsersTable d = Some e" by (cases "validateDestinationUsersTable d") simp_all
  then show ?thesis by (simp add: migrateUsers_def)
qed

lemma migrateNotificationTypes_nonempty:
  assumes "notification_types d \<noteq> []"
  shows "\<exists>e. migrateNotificationTypes s d = (Some e, d)"
proof -
  from assms have "validateDestinationNotificationTypesTable d \<noteq> None"
    by (simp add: validate_types_None)
  then obtain e where "validateDestinationNotificationTypesTable d = Some e"
    by (cases "validateDestinationNotificationTypesTable d") simp_all
  then show ?thesis by (simp add: migrateNotificationTypes_def)
qed

lemma migrateNotifications_nonempty:
  assumes "notifications d \<noteq> []"
  shows "\<exists>e. migrateNotifications js s d = (Failure e, d)"
proof -
  from assms have "validateDestinationNotificationsTable d \<noteq> None"
    by (simp add: validate_notifications_None)
  then obtain e where "validateDestinationNotificationsTable d = Some e"
    by (cases "validateDestinationNotificationsTable d") simp_all
  then show ?thesis by (simp add: migrateNotifications_def)
qed

lemma migrateUsers_other_tables:
  "notification_types (snd (migrateUsers s d)) = notification_types d"
  "notifications (snd (migrateUsers s d)) = notifications d"
  "dst_query_err (snd (migrateUsers s d)) = dst_query_err d"
proof -
  obtain r d1 where m: "migrateUsers s d = (r, d1)" by (cases "migrateUsers s d") simp
  show "notification_types (snd (migrateUsers s d)) = notification_types d"
    using migrateUsers_success(5) [of s d d1] migrateUsers_failure(3) [of s d _ d1] m
    by (cases r) simp_all
  show "notifications (snd (migrateUsers s d)) = notifications d"
    using migrateUsers_success(6) [of s d d1] migrateUsers_failure(4) [of s d _ d1] m
    by (cases r) simp_all
  show "dst_query_err (snd (migrateUsers s d)) = dst_query_err d"
    using migrateUsers_success(7) [of s d d1] migrateUsers_failure(5) [of s d _ d1] m
    by (cases r) simp_all
qed

lemma migrateNotificationTypes_other_tables:
  "notifications (snd (migrateNotificationTypes s d)) = notifications d"
proof -
  obtain r d1 where m: "migrateNotificationTypes s d = (r, d1)"
    by (cases "migrateNotificationTypes s d") simp
  show ?thesis
    using migrateNotificationTypes_success(6) [of s d d1]
      migrateNotificationTypes_failure(4) [of s d _ d1] m
    by (cases r) simp_all
qed

lemma runMigration_users_nonempty:
  assumes "users d \<noteq> []"
  shows "\<exists>e. runMigration js s d = (Failure e, d)"
proof -
  from migrateUsers_nonempty [OF assms] obtain e where "migrateUsers s d = (Some e, d)" ..
  then show ?thesis by (simp add: runMigration_def)
qed

lemma runMigration_types_nonempty:
  assumes "notification_types d \<noteq> []"
  shows "\<exists>e. runMigration js s d = (Failure e, snd (migrateUsers s d))"
proof -
  obtain r d1 where m: "migrateUsers s d = (r, d1)" by (cases "migrateUsers s d") simp
  show ?thesis
  proof (cases r)
    case None
    have "notification_types d1 \<noteq> []"
      using migrateUsers_other_tables(1) [of s d] m assms by simp
    from migrateNotificationTypes_nonempty [OF this] obtain e where
      "migrateNotificationTypes s d1 = (Some e, d1)" ..
    with m None show ?thesis by (simp add: runMigration_def)
  next
    case (Some e)
    with m show ?thesis by (simp add: runMigration_def)
  qed
qed

lemma runMigration_notifications_nonempty:
  assumes "notifications d \<noteq> []"
  shows "\<exists>e. runMigration js s d =
           (Failure e,
            if fst (migrateUsers s d) = None
            then snd (migrateNotificationTypes s (snd (migrateUsers s d)))
            else snd (migrateUsers s d))"
proof -
  obtain r d1 where m: "migrateUsers s d = (r, d1)" by (cases "migrateUsers s d") simp
  show ?thesis
  proof (cases r)
    case None
    obtain r2 d2 where m2: "migrateNotificationTypes s d1 = (r2, d2)"
      by (cases "migrateNotificationTypes s d1") simp
    show ?thesis
    proof (cases r2)
      case None
      have "notifications d2 \<noteq> []"
        using migrateUsers_other_tables(2) [of s d] migrateNotificationTypes_other_tables [of s d1]
          m m2 assms
        by simp
      from migrateNotifications_nonempty [OF this] obtain e where
        "migrateNotifications js s d2 = (Failure e, d2)" ..
      with m m2 None \<open>r = None\<close> show ?thesis by (simp add: runMigration_def)
    next
      case (Some e)
      with m m2 \<open>r = None\<close> show ?thesis by (simp add: runMigration_def)
    qed
  next
    case (Some e)
    with m show ?thesis by (simp add: runMigration_def)
  qed
qed

lemma runMigration_users_message:
  assumes "users d \<noteq> []" and "dst_query_err d count_users_query = None"
  shows "fst (runMigration js s d) =
    Failure ''database migration failed: user migration failed: the destination users table is not empty''"
proof -
  from assms have "validateDestinationUsersTable d =
      Some ''the destination users table is not empty''"
    by (simp add: validateDestinationUsersTable_def dst_QueryRow_count_def)
  then show ?thesis by (simp add: runMigration_def migrateUsers_def Wrap_def)
qed

lemma runMigration_types_message:
  assumes "notification_types d \<noteq> []" and "fst (migrateUsers s d) = None"
    and "dst_query_err d count_types_query = None"
  shows "fst (runMigration js s d) =
    Failure ''database migration failed: notification type migration failed: the destination notification_types table is not empty''"
proof -
  obtain d1 where m: "migrateUsers s d = (None, d1)"
    using assms(2) by (cases "migrateUsers s d") simp
  have "notification_types d1 \<noteq> []" "dst_query_err d1 count_types_query = None"
    using migrateUsers_other_tables(1,3) [of s d] m assms by simp_all
  then have "validateDestinationNotificationTypesTable d1 =
      Some ''the destination notification_types table is not empty''"
    by (simp add: validateDestinationNotificationTypesTable_def dst_QueryRow_count_def)
  with m show ?thesis
    by (simp add: runMigration_def migrateNotificationTypes_def Wrap_def)
qed

text \<open>
  Claim C5, as amended. Each destination table is checked when its own stage starts.
  If \<open>users\<close> is non-empty at the start, the run fails and the destination is as it was:
  nothing has been written. If \<open>notification_types\<close> is non-empty, the run fails and the
  destination is as the user stage left it, with \<open>notification_types\<close> and \<open>notifications\<close>
  unchanged. If \<open>notifications\<close> is non-empty, the run fails and the destination is as
  the last stage that ran before the notification stage left it, with \<open>notifications\<close>
  unchanged. When the count query succeeds, the failure for \<open>users\<close> names that table,
  and so does the failure for \<open>notification_types\<close> when the user stage succeeded.
\<close>

theorem runMigration_nonempty_destination:
  "(users d \<noteq> [] \<longrightarrow> (\<exists>e. runMigration js s d = (Failure e, d))) \<and>
   (notification_types d \<noteq> [] \<longrightarrow>
      (\<exists>e. runMigration js s d = (Failure e, snd (migrateUsers s d))) \<and>
      notification_types (snd (migrateUsers s d)) = notification_types d \<and>
      notifications (snd (migrateUsers s d)) = notifications d) \<and>
   (notifications d \<noteq> [] \<longrightarrow>
      (\<exists>e. runMigration js s d =
         (Failure e,
          if fst (migrateUsers s d) = None
          then snd (migrateNotificationTypes s (snd (migrateUsers s d)))
          else snd (migrateUsers s d))) \<and>
      notifications (snd (migrateUsers s d)) = notifications d \<and>
      notifications (snd (migrateNotificationTypes s (snd (migrateUsers s d)))) =
        notifications d) \<and>
   (users d \<noteq> [] \<and> dst_query_err d count_users_query = None \<longrightarrow>
      fst (runMigration js s d) =
        Failure ''database migration failed: user migration failed: the destination users table is not empty'') \<and>
   (notification_types d \<noteq> [] \<and> fst (migrateUsers s d) = None \<and>
    dst_query_err d count_types_query = None \<longrightarrow>
      fst (runMigration js s d) =
        Failure ''database migration failed: notification type migration failed: the destination notification_types table is not empty'')"
  using runMigration_users_nonempty [of d js s] runMigration_types_nonempty [of d js s]
    runMigration_notifications_nonempty [of d js s] runMigration_users_message [of d js s]
    runMigration_types_message [of d s js]
  by (simp add: migrateUsers_other_tables migrateNotificationTypes_other_tables)

theorem runMigration_nonempty_destination_witness:
  "runMigration example_json example_source (empty_dest\<lparr>users := [bob]\<rparr>) =
     (Failure ''database migration failed: user migration failed: the destination users table is not empty'',
      empty_dest\<lparr>users := [bob]\<rparr>) \<and>
   fst (runMigration example_json example_source
          (empty_dest\<lparr>notification_types := [warning_type]\<rparr>)) =
     Failure ''database migration failed: notification type migration failed: the destination notification_types table is not empty'' \<and>
   notification_types (snd (runMigration example_json example_source
      (empty_dest\<lparr>notification_types := [warning_type]\<rparr>))) = [warning_type]"
proof -
  let ?d = "empty_dest\<lparr>users := [bob]\<rparr>"
  let ?d' = "empty_dest\<lparr>notification_types := [warning_type]\<rparr>"
  have a: "users ?d \<noteq> []" "dst_query_err ?d count_users_query = None"
    by (simp_all add: empty_dest_def)
  have b: "notification_types ?d' \<noteq> []" "dst_query_err ?d' count_types_query = None"
    "notification_types ?d' = [warning_type]"
    by (simp_all add: empty_dest_def)
  have c: "fst (migrateUsers example_source ?d') = None"
    by (simp add: model_defs)
  from runMigration_nonempty_destination [of ?d example_json example_source] a
  have 1: "\<exists>e. runMigration example_json example_source ?d = (Failure e, ?d)"
    and 2: "fst (runMigration example_json example_source ?d) =
        Failure ''database migration failed: user migration failed: the destination users table is not empty''"
    by simp_all
  from 1 2 have 3: "runMigration example_json example_source ?d =
     (Failure ''database migration failed: user migration failed: the destination users table is not empty'', ?d)"
    by auto
  from runMigration_nonempty_destination [of ?d' example_json example_source] b c
  have 4: "\<exists>e. runMigration example_json example_source ?d' =
            (Failure e, snd (migrateUsers example_source ?d'))"
    and 5: "notification_types (snd (migrateUsers example_source ?d')) = [warning_type]"
    and 6: "fst (runMigration example_json example_source ?d') =
        Failure ''database migration failed: notification type migration failed: the destination notification_types table is not empty''"
    by simp_all
  from 4 5 have "notification_types (snd (runMigration example_json example_source ?d')) =
      [warning_type]"
    by auto
  with 3 6 show ?thesis by simp
qed

text \<open>
  Claim C5 as stated fails: with an empty \<open>users\<close> table and a non-empty
  \<open>notification_types\<close> table the run fails only after the user stage has executed its
  insert statement, and the destination it leaves holds the migrated user.
\<close>

theorem runMigration_writes_before_failing:
  "notification_types (empty_dest\<lparr>notification_types := [warning_type]\<rparr>) = [warning_type] \<and>
   executed (empty_dest\<lparr>notification_types := [warning_type]\<rparr>) = [] \<and>
   users (empty_dest\<lparr>notification_types := [warning_type]\<rparr>) = [] \<and>
   fst (runMigration example_json example_source
          (empty_dest\<lparr>notification_types := [warning_type]\<rparr>)) =
     Failure ''database migration failed: notification type migration failed: the destination notification_types table is not empty'' \<and>
   executed (snd (runMigration example_json example_source
      (empty_dest\<lparr>notification_types := [warning_type]\<rparr>))) =
     [\<lparr>Into = ''users'', Columns = [''username''], Values = [[SString ''alice'']]\<rparr>] \<and>
   users (snd (runMigration example_json example_source
      (empty_dest\<lparr>notification_types := [warning_type]\<rparr>))) =
     [\<lparr>du_id = ''dst-'', du_username = ''alice''\<rparr>]"
  by (simp add: model_defs)

end
